theory Spec2Isabelle
  imports Complex_Main "HOL-Library.Char_ord" "HOL-Library.List_Lexorder"
begin

section \<open>JavaScript numbers and the Math functions the chart uses\<close>

text \<open>
  A JavaScript \<open>number\<close> is a finite value, one of the two infinities, or NaN. A finite
  value is held as the real number it denotes. The finite numbers are the IEEE 754 doubles:
  the reals that rounding to the nearest double leaves unchanged. Comparison,
  \<open>Math.floor\<close> and \<open>Math.ceil\<close> are exact on doubles; addition rounds its result.
\<close>

datatype number = Num real | PosInfinity | NegInfinity | NaN

text \<open>
  Rounding to the nearest double, ties to the even significand. The unit in the last place
  of \<open>x\<close> is \<open>2 ^ (e - 52)\<close> where \<open>2 ^ e \<le> |x| < 2 ^ (e + 1)\<close>, and \<open>2 ^ -1074\<close> in the
  subnormal range; \<open>x\<close> is rounded to the nearest multiple of that unit. A result of
  magnitude \<open>2 ^ 1024\<close> or more is an infinity.
\<close>

definition round_half_even :: "real \<Rightarrow> int" where
  "round_half_even y =
     (let f = \<lfloor>y\<rfloor> in
      if y - of_int f < 1 / 2 then f
      else if 1 / 2 < y - of_int f then f + 1
      else if even f then f else f + 1)"

definition ulp_exponent :: "real \<Rightarrow> int" where
  "ulp_exponent x = max (\<lfloor>log 2 \<bar>x\<bar>\<rfloor> - 52) (- 1074)"

definition nearest_double :: "real \<Rightarrow> real" where
  "nearest_double x =
     (if x = 0 then 0
      else 2 powi ulp_exponent x * of_int (round_half_even (x / 2 powi ulp_exponent x)))"

definition double_bound :: real where
  "double_bound = 2 ^ 1024"

definition to_number :: "real \<Rightarrow> number" where
  "to_number r =
     (let y = nearest_double r in
      if double_bound \<le> y then PosInfinity
      else if y \<le> - double_bound then NegInfinity
      else Num y)"

definition is_double :: "real \<Rightarrow> bool" where
  "is_double x = (nearest_double x = x \<and> \<bar>x\<bar> < double_bound)"

text \<open>The relational operators \<open>a < b\<close> and \<open>a > b\<close>: false as soon as one side is NaN.\<close>

fun js_lt :: "number \<Rightarrow> number \<Rightarrow> bool" where
  "js_lt NaN _ = False"
| "js_lt _ NaN = False"
| "js_lt (Num a) (Num b) = (a < b)"
| "js_lt (Num _) PosInfinity = True"
| "js_lt NegInfinity (Num _) = True"
| "js_lt NegInfinity PosInfinity = True"
| "js_lt _ _ = False"

definition js_gt :: "number \<Rightarrow> number \<Rightarrow> bool" where
  "js_gt a b = js_lt b a"

text \<open>
  \<open>Math.min(...xs)\<close> and \<open>Math.max(...xs)\<close>: the result starts at \<open>+Infinity\<close>
  (\<open>-Infinity\<close> for the maximum), every argument is compared in turn, and a NaN argument
  makes the result NaN.
\<close>

fun min2 :: "number \<Rightarrow> number \<Rightarrow> number" where
  "min2 NaN _ = NaN"
| "min2 _ NaN = NaN"
| "min2 a b = (if js_lt b a then b else a)"

fun max2 :: "number \<Rightarrow> number \<Rightarrow> number" where
  "max2 NaN _ = NaN"
| "max2 _ NaN = NaN"
| "max2 a b = (if js_lt a b then b else a)"

definition Math_min :: "number list \<Rightarrow> number" where
  "Math_min xs = foldl min2 PosInfinity xs"

definition Math_max :: "number list \<Rightarrow> number" where
  "Math_max xs = foldl max2 NegInfinity xs"

fun Math_floor :: "number \<Rightarrow> number" where
  "Math_floor (Num r) = Num (of_int \<lfloor>r\<rfloor>)"
| "Math_floor x = x"

fun Math_ceil :: "number \<Rightarrow> number" where
  "Math_ceil (Num r) = Num (of_int \<lceil>r\<rceil>)"
| "Math_ceil x = x"

text \<open>\<open>a + b\<close> on numbers: the exact sum of two finite numbers, rounded.\<close>

fun js_add :: "number \<Rightarrow> number \<Rightarrow> number" where
  "js_add (Num a) (Num b) = to_number (a + b)"
| "js_add NaN _ = NaN"
| "js_add _ NaN = NaN"
| "js_add PosInfinity NegInfinity = NaN"
| "js_add NegInfinity PosInfinity = NaN"
| "js_add PosInfinity _ = PosInfinity"
| "js_add _ PosInfinity = PosInfinity"
| "js_add NegInfinity _ = NegInfinity"
| "js_add _ NegInfinity = NegInfinity"

subsection \<open>Axis bounds of the chart (WeatherDisplay, the four lines before chartConfig)\<close>

definition minTemp :: "number list \<Rightarrow> number" where
  "minTemp temperature_2m = Math_min temperature_2m"

definition maxTemp :: "number list \<Rightarrow> number" where
  "maxTemp temperature_2m = Math_max temperature_2m"

definition yAxisMin :: "number list \<Rightarrow> number" where
  "yAxisMin temperature_2m =
     (if js_lt (minTemp temperature_2m) (Num 0) then Math_floor (minTemp temperature_2m)
      else Num 0)"

definition yAxisMax :: "number list \<Rightarrow> number" where
  "yAxisMax temperature_2m =
     (if js_gt (maxTemp temperature_2m) (Num 40)
      then js_add (Math_ceil (maxTemp temperature_2m)) (Num 2)
      else Num 40)"

section \<open>Text: digits, splitting and joining\<close>

text \<open>
  Strings are lists of 8-bit characters; text outside ASCII is held as its UTF-8 bytes.
\<close>

definition digit_char :: "nat \<Rightarrow> char" where
  "digit_char n = ''0123456789'' ! (n mod 10)"

text \<open>A field formatted with the option \<open>"2-digit"\<close>: the last two decimal digits.\<close>

definition two_digit :: "nat \<Rightarrow> string" where
  "two_digit n = [digit_char (n div 10), digit_char n]"

text \<open>A field formatted with the option \<open>"numeric"\<close>, and an array length in a template.\<close>

fun show_nat :: "nat \<Rightarrow> string" where
  "show_nat n = (if n < 10 then [digit_char n] else show_nat (n div 10) @ [digit_char n])"

declare show_nat.simps [simp del]

text \<open>\<open>s.split(c)\<close> for a one-character separator.\<close>

fun split_on :: "char \<Rightarrow> string \<Rightarrow> string list" where
  "split_on c [] = [[]]"
| "split_on c (x # xs) =
     (if x = c then [] # split_on c xs
      else (case split_on c xs of [] \<Rightarrow> [[x]] | p # ps \<Rightarrow> (x # p) # ps))"

text \<open>\<open>a[i]\<close> on an array: \<open>undefined\<close> (here \<open>None\<close>) out of range.\<close>

definition at_index :: "'a list \<Rightarrow> nat \<Rightarrow> 'a option" where
  "at_index xs i = (if i < length xs then Some (xs ! i) else None)"

text \<open>\<open>rows.join(sep)\<close>.\<close>

fun join :: "string \<Rightarrow> string list \<Rightarrow> string" where
  "join sep [] = []"
| "join sep [x] = x"
| "join sep (x # y # ys) = x @ sep @ join sep (y # ys)"

section \<open>Data of the commands\<close>

text \<open>Exceptions: \<open>new Error(message)\<close> and the built-in error classes that can arise.\<close>

datatype exn = Error string | TypeError | RangeError | SyntaxError

text \<open>The local wall-clock reading of an instant in a time zone.\<close>

record wallclock =
  year :: nat
  month :: nat
  day :: nat
  hour :: nat
  minute :: nat
  second :: nat

text \<open>The interfaces \<open>LocationResponse\<close> and \<open>WeatherResponse\<close> of the hourly command.\<close>

record LocationResponse =
  success :: bool
  loc_latitude :: number
  loc_longitude :: number
  loc_city :: string
  loc_country :: string
  timezone_id :: string

record Hourly =
  time :: "string list"
  temperature_2m :: "number list"

record HourlyUnits =
  units_time :: string
  units_temperature_2m :: string

record WeatherResponse =
  latitude :: number
  longitude :: number
  timezone :: string
  hourly :: Hourly
  hourly_units :: HourlyUnits

text \<open>The interface \<open>WeatherResponse\<close> of the current-weather command.\<close>

record Current =
  cur_time_of :: string
  cur_temperature_2m :: number
  relative_humidity_2m :: number
  weather_code :: number
  wind_speed_10m :: number

record CurrentUnits =
  cu_temperature_2m :: string
  cu_relative_humidity_2m :: string
  cu_wind_speed_10m :: string

record CurrentResponse =
  cur_latitude :: number
  cur_longitude :: number
  current :: Current
  current_units :: CurrentUnits

text \<open>
  A decoded JSON body. The TypeScript interfaces are erased at run time, so a decoded body
  may have either shape or neither: \<open>JNull\<close> is \<open>null\<close> (or \<open>undefined\<close> where a hook has
  no data yet), \<open>JForecast\<close> an object with the members of the hourly interface,
  \<open>JCurrent\<close> an object with the members of the current-weather interface (and no
  \<open>hourly\<close> member), \<open>JOther\<close> any other object (neither \<open>hourly\<close> nor \<open>current\<close>).
\<close>

datatype json = JNull | JForecast WeatherResponse | JCurrent CurrentResponse | JOther

text \<open>What \<open>fetch(url)\<close> settles to: a rejection, or a response.\<close>

record response =
  ok :: bool
  status :: nat
  statusText :: string
  body :: string

datatype fetch_outcome = Rejected exn | Resolved response

text \<open>
  The chart specification handed to the chart service. Only the members that vary are kept:
  the labels, the dataset's label and data, the title text and the ticks of the y axis
  (\<open>suggestedMin\<close> and \<open>suggestedMax\<close> in the caching command, \<open>beginAtZero\<close> in
  \<open>temperature.tsx\<close>); colours, fonts and the data-label plugin are constants.
\<close>

record chartConfig =
  labels :: "string option list"
  dataset_label :: string
  dataset_data :: "number list"
  title_text :: string
  suggestedMin :: "number option"
  suggestedMax :: "number option"
  beginAtZero :: "bool option"

text \<open>
  The host: what the JavaScript engine, the network and the platform provide.
  \<^item> \<open>timeZone\<close>: the time-zone database behind \<open>toLocaleDateString\<close> and
    \<open>toLocaleTimeString\<close>; \<open>None\<close> for an identifier that is not a valid time zone (the
    call then throws RangeError), otherwise the wall-clock reading of each instant;
  \<^item> \<open>longDate\<close>: the \<open>en-US\<close> long date of a year, month and day;
  \<^item> \<open>Number_toString\<close>: a number inside a template literal;
  \<^item> \<open>encodeChart\<close>: \<open>encodeURIComponent(JSON.stringify(chartConfig))\<close>;
  \<^item> \<open>JSON_stringify\<close>, \<open>JSON_parse\<close>: the JSON codec (\<open>response.json()\<close> parses the body
    with the same parser);
  \<^item> \<open>fetch\<close>: the outcome of a GET request to a URL.
\<close>

record host =
  timeZone :: "string \<Rightarrow> (int \<Rightarrow> wallclock) option"
  longDate :: "nat \<Rightarrow> nat \<Rightarrow> nat \<Rightarrow> string"
  Number_toString :: "number \<Rightarrow> string"
  encodeChart :: "chartConfig \<Rightarrow> string"
  JSON_stringify :: "json \<Rightarrow> string"
  JSON_parse :: "string \<Rightarrow> exn + json"
  fetch :: "string \<Rightarrow> fetch_outcome"

text \<open>
  \<open>LocalStorage\<close>: the stored items, and the calls made on it so far (latest first).
\<close>

datatype storage_call = GetItem string | SetItem string string

record LocalStorage =
  items :: "string \<rightharpoonup> string"
  calls :: "storage_call list"

definition getItem :: "string \<Rightarrow> LocalStorage \<Rightarrow> string option \<times> LocalStorage" where
  "getItem key st = (items st key, st\<lparr>calls := GetItem key # calls st\<rparr>)"

definition setItem :: "string \<Rightarrow> string \<Rightarrow> LocalStorage \<Rightarrow> LocalStorage" where
  "setItem key v st = st\<lparr>items := (items st)(key \<mapsto> v), calls := SetItem key v # calls st\<rparr>"

text \<open>The props of \<open>WeatherDisplay\<close>.\<close>

record props =
  p_latitude :: number
  p_longitude :: number
  city :: string
  country :: string
  timezoneId :: string

text \<open>The four state variables of \<open>WeatherDisplay\<close> in the caching command.\<close>

record state =
  weather :: json
  isStale :: bool
  isLoading :: bool
  error :: "exn option"

definition initial_state :: state where
  "initial_state = \<lparr>weather = JNull, isStale = False, isLoading = True, error = None\<rparr>"

text \<open>What the hook \<open>useFetch\<close> hands to a component.\<close>

record 'a useFetch =
  data :: 'a
  uf_isLoading :: bool
  uf_error :: "exn option"

text \<open>
  What a component returns: \<open><Detail isLoading={true} />\<close>, the same with the message
  "Getting location...", the two fixed error panels (forecast, location), the report with
  its \<open>isLoading\<close> flag, markdown and chart URL, and for the current-weather command the
  error panel (built from the error and the request URL) and the report.
\<close>

datatype view =
    Loading
  | Locating
  | FetchErrorPanel
  | LocationErrorPanel
  | Report bool string string
  | CurrentErrorPanel exn string
  | CurrentReport bool string

text \<open>A render: the view or the exception it throws, and the lines written to the console.\<close>

type_synonym rendered = "(exn + view) \<times> string list"

section \<open>Fixed text of the reports\<close>

text \<open>The stale banner: two newlines, a block quote with a warning sign and the bold sentence
  "Update failed. Showing the data fetched last time.", two newlines.\<close>

definition staleMessage_text :: string where
  "staleMessage_text =
     ''\<newline>\<newline>> '' @
     [CHR 0xE2, CHR 0x9A, CHR 0xA0, CHR 0xEF, CHR 0xB8, CHR 0x8F] @ '' **'' @
     [CHR 0xE6, CHR 0x9B, CHR 0xB4, CHR 0xE6, CHR 0x96, CHR 0xB0, CHR 0xE3, CHR 0x81, CHR 0xAB] @
     [CHR 0xE5, CHR 0xA4, CHR 0xB1, CHR 0xE6, CHR 0x95, CHR 0x97, CHR 0xE3, CHR 0x81, CHR 0x97] @
     [CHR 0xE3, CHR 0x81, CHR 0xBE, CHR 0xE3, CHR 0x81, CHR 0x97, CHR 0xE3, CHR 0x81, CHR 0x9F] @
     [CHR 0xE3, CHR 0x80, CHR 0x82, CHR 0xE5, CHR 0x89, CHR 0x8D, CHR 0xE5, CHR 0x9B, CHR 0x9E] @
     [CHR 0xE5, CHR 0x8F, CHR 0x96, CHR 0xE5, CHR 0xBE, CHR 0x97, CHR 0xE3, CHR 0x81, CHR 0x97] @
     [CHR 0xE3, CHR 0x81, CHR 0x9F, CHR 0xE3, CHR 0x83, CHR 0x87, CHR 0xE3, CHR 0x83, CHR 0xBC] @
     [CHR 0xE3, CHR 0x82, CHR 0xBF, CHR 0xE3, CHR 0x82, CHR 0x92, CHR 0xE8, CHR 0xA1, CHR 0xA8] @
     [CHR 0xE7, CHR 0xA4, CHR 0xBA, CHR 0xE3, CHR 0x81, CHR 0x97, CHR 0xE3, CHR 0x81, CHR 0xA6] @
     [CHR 0xE3, CHR 0x81, CHR 0x84, CHR 0xE3, CHR 0x81, CHR 0xBE, CHR 0xE3, CHR 0x81, CHR 0x99] @
     [CHR 0xE3, CHR 0x80, CHR 0x82] @ ''**\<newline>\<newline>''"

text \<open>" temperature trend (today)", the end of the title line.\<close>

definition md_title_tail :: string where
  "md_title_tail =
     '' '' @
     [CHR 0xE3, CHR 0x81, CHR 0xAE, CHR 0xE6, CHR 0xB0, CHR 0x97, CHR 0xE6, CHR 0xB8, CHR 0xA9] @
     [CHR 0xE6, CHR 0x8E, CHR 0xA8, CHR 0xE7, CHR 0xA7, CHR 0xBB, CHR 0xEF, CHR 0xBC, CHR 0x88] @
     [CHR 0xE4, CHR 0xBB, CHR 0x8A, CHR 0xE6, CHR 0x97, CHR 0xA5, CHR 0xEF, CHR 0xBC, CHR 0x89]"

text \<open>The bold label "Period".\<close>

definition md_period :: string where
  "md_period =
     ''**'' @ [CHR 0xE6, CHR 0x9C, CHR 0x9F, CHR 0xE9, CHR 0x96, CHR 0x93] @ ''**: ''"

text \<open>A wave dash between the two window bounds.\<close>

definition md_to :: string where
  "md_to =
     '' '' @ [CHR 0xE3, CHR 0x80, CHR 0x9C] @ '' ''"

text \<open>The bold label "Place".\<close>

definition md_place :: string where
  "md_place =
     ''**'' @ [CHR 0xE5, CHR 0xA0, CHR 0xB4, CHR 0xE6, CHR 0x89, CHR 0x80] @ ''**: ''"

text \<open>The bold label "Coordinates" followed by "latitude".\<close>

definition md_coordinates :: string where
  "md_coordinates =
     ''**'' @ [CHR 0xE5, CHR 0xBA, CHR 0xA7, CHR 0xE6, CHR 0xA8, CHR 0x99] @ ''**: '' @
     [CHR 0xE7, CHR 0xB7, CHR 0xAF, CHR 0xE5, CHR 0xBA, CHR 0xA6] @ '' ''"

text \<open>A comma and "longitude".\<close>

definition md_longitude :: string where
  "md_longitude =
     '', '' @ [CHR 0xE7, CHR 0xB5, CHR 0x8C, CHR 0xE5, CHR 0xBA, CHR 0xA6] @ '' ''"

text \<open>The bold label "Time zone".\<close>

definition md_timezone :: string where
  "md_timezone =
     ''**'' @
     [CHR 0xE3, CHR 0x82, CHR 0xBF, CHR 0xE3, CHR 0x82, CHR 0xA4, CHR 0xE3, CHR 0x83, CHR 0xA0] @
     [CHR 0xE3, CHR 0x82, CHR 0xBE, CHR 0xE3, CHR 0x83, CHR 0xBC, CHR 0xE3, CHR 0x83, CHR 0xB3] @
     ''**: ''"

text \<open>The bold label "Number of data points".\<close>

definition md_count :: string where
  "md_count =
     ''**'' @
     [CHR 0xE3, CHR 0x83, CHR 0x87, CHR 0xE3, CHR 0x83, CHR 0xBC, CHR 0xE3, CHR 0x82, CHR 0xBF] @
     [CHR 0xE6, CHR 0x95, CHR 0xB0] @ ''**: ''"

text \<open>The counter word after the number of samples.\<close>

definition md_count_unit :: string where
  "md_count_unit =
     [CHR 0xE4, CHR 0xBB, CHR 0xB6]"

text \<open>The heading "Graph".\<close>

definition md_graph_heading :: string where
  "md_graph_heading =
     ''## '' @
     [CHR 0xE3, CHR 0x82, CHR 0xB0, CHR 0xE3, CHR 0x83, CHR 0xA9, CHR 0xE3, CHR 0x83, CHR 0x95]"

text \<open>The start of the image link, with the alternative text "temperature trend graph".\<close>

definition md_graph_image :: string where
  "md_graph_image =
     ''!['' @
     [CHR 0xE6, CHR 0xB0, CHR 0x97, CHR 0xE6, CHR 0xB8, CHR 0xA9, CHR 0xE6, CHR 0x8E, CHR 0xA8] @
     [CHR 0xE7, CHR 0xA7, CHR 0xBB, CHR 0xE3, CHR 0x82, CHR 0xB0, CHR 0xE3, CHR 0x83, CHR 0xA9] @
     [CHR 0xE3, CHR 0x83, CHR 0x95] @ ''](''"

text \<open>The heading "Time series data".\<close>

definition md_table_heading :: string where
  "md_table_heading =
     ''## '' @
     [CHR 0xE6, CHR 0x99, CHR 0x82, CHR 0xE7, CHR 0xB3, CHR 0xBB, CHR 0xE5, CHR 0x88, CHR 0x97] @
     [CHR 0xE3, CHR 0x83, CHR 0x87, CHR 0xE3, CHR 0x83, CHR 0xBC, CHR 0xE3, CHR 0x82, CHR 0xBF]"

text \<open>The table header "Time", "Temperature".\<close>

definition md_table_header :: string where
  "md_table_header =
     ''| '' @ [CHR 0xE6, CHR 0x99, CHR 0x82, CHR 0xE5, CHR 0x88, CHR 0xBB] @ '' | '' @
     [CHR 0xE6, CHR 0xB0, CHR 0x97, CHR 0xE6, CHR 0xB8, CHR 0xA9] @ '' |''"

text \<open>The dataset label "Temperature (".\<close>

definition chart_label :: string where
  "chart_label =
     [CHR 0xE6, CHR 0xB0, CHR 0x97, CHR 0xE6, CHR 0xB8, CHR 0xA9] @ '' (''"

text \<open>The title "Current weather in Tokyo".\<close>

definition cur_title :: string where
  "cur_title =
     ''# '' @
     [CHR 0xE6, CHR 0x9D, CHR 0xB1, CHR 0xE4, CHR 0xBA, CHR 0xAC, CHR 0xE3, CHR 0x81, CHR 0xAE] @
     [CHR 0xE7, CHR 0x8F, CHR 0xBE, CHR 0xE5, CHR 0x9C, CHR 0xA8, CHR 0xE3, CHR 0x81, CHR 0xAE] @
     [CHR 0xE5, CHR 0xA4, CHR 0xA9, CHR 0xE6, CHR 0xB0, CHR 0x97]"

text \<open>The heading "Basic information".\<close>

definition cur_basic_heading :: string where
  "cur_basic_heading =
     ''## '' @
     [CHR 0xE5, CHR 0x9F, CHR 0xBA, CHR 0xE6, CHR 0x9C, CHR 0xAC, CHR 0xE6, CHR 0x83, CHR 0x85] @
     [CHR 0xE5, CHR 0xA0, CHR 0xB1]"

text \<open>The item label "Time".\<close>

definition cur_time :: string where
  "cur_time =
     ''- **'' @ [CHR 0xE6, CHR 0x99, CHR 0x82, CHR 0xE5, CHR 0x88, CHR 0xBB] @ ''**: ''"

text \<open>The item label "Coordinates" followed by "latitude".\<close>

definition cur_coordinates :: string where
  "cur_coordinates =
     ''- **'' @ [CHR 0xE5, CHR 0xBA, CHR 0xA7, CHR 0xE6, CHR 0xA8, CHR 0x99] @ ''**: '' @
     [CHR 0xE7, CHR 0xB7, CHR 0xAF, CHR 0xE5, CHR 0xBA, CHR 0xA6] @ '' ''"

text \<open>The heading "Weather data".\<close>

definition cur_data_heading :: string where
  "cur_data_heading =
     ''## '' @
     [CHR 0xE6, CHR 0xB0, CHR 0x97, CHR 0xE8, CHR 0xB1, CHR 0xA1, CHR 0xE3, CHR 0x83, CHR 0x87] @
     [CHR 0xE3, CHR 0x83, CHR 0xBC, CHR 0xE3, CHR 0x82, CHR 0xBF]"

text \<open>The item label "Temperature".\<close>

definition cur_temperature :: string where
  "cur_temperature =
     ''- **'' @ [CHR 0xE6, CHR 0xB0, CHR 0x97, CHR 0xE6, CHR 0xB8, CHR 0xA9] @ ''**: ''"

text \<open>The item label "Humidity".\<close>

definition cur_humidity :: string where
  "cur_humidity =
     ''- **'' @ [CHR 0xE6, CHR 0xB9, CHR 0xBF, CHR 0xE5, CHR 0xBA, CHR 0xA6] @ ''**: ''"

text \<open>The item label "Wind speed".\<close>

definition cur_wind :: string where
  "cur_wind =
     ''- **'' @ [CHR 0xE9, CHR 0xA2, CHR 0xA8, CHR 0xE9, CHR 0x80, CHR 0x9F] @ ''**: ''"

text \<open>The item label "Weather code".\<close>

definition cur_code :: string where
  "cur_code =
     ''- **'' @
     [CHR 0xE5, CHR 0xA4, CHR 0xA9, CHR 0xE6, CHR 0xB0, CHR 0x97, CHR 0xE3, CHR 0x82, CHR 0xB3] @
     [CHR 0xE3, CHR 0x83, CHR 0xBC, CHR 0xE3, CHR 0x83, CHR 0x89] @ ''**: ''"

section \<open>The time window (\<open>WeatherDisplay\<close>: \<open>dateString\<close>, \<open>timeString\<close>, \<open>startTime\<close>, \<open>endTime\<close>, \<open>apiUrl\<close>)\<close>

text \<open>
  \<open>now.toLocaleDateString("en-CA", {timeZone, year: "numeric", month: "2-digit", day:
  "2-digit"})\<close> and \<open>now.toLocaleTimeString("en-GB", {timeZone, hour: "2-digit", minute:
  "2-digit", hour12: false})\<close> read \<open>now\<close> in the given time zone and print
  \<open>YYYY-MM-DD\<close> and \<open>HH:mm\<close>; both throw RangeError on an invalid time zone.
\<close>

definition localNow :: "host \<Rightarrow> string \<Rightarrow> int \<Rightarrow> exn + wallclock" where
  "localNow h tz now =
     (case timeZone h tz of None \<Rightarrow> Inl RangeError | Some clock \<Rightarrow> Inr (clock now))"

definition dateString :: "wallclock \<Rightarrow> string" where
  "dateString wc = show_nat (year wc) @ ''-'' @ two_digit (month wc) @ ''-'' @ two_digit (day wc)"

definition timeString :: "wallclock \<Rightarrow> string" where
  "timeString wc = two_digit (hour wc) @ '':'' @ two_digit (minute wc)"

definition startTime :: "wallclock \<Rightarrow> string" where
  "startTime wc = dateString wc @ ''T05:00''"

definition endTime :: "wallclock \<Rightarrow> string" where
  "endTime wc = dateString wc @ ''T'' @ timeString wc"

text \<open>A wall-clock reading whose fields are in the ranges of the calendar and the clock.\<close>

definition valid_wallclock :: "wallclock \<Rightarrow> bool" where
  "valid_wallclock wc =
     (1 \<le> month wc \<and> month wc \<le> 12 \<and> 1 \<le> day wc \<and> day wc \<le> 31
      \<and> hour wc < 24 \<and> minute wc < 60 \<and> second wc < 60)"

text \<open>The window of an instant in a time zone: the pair of \<open>startTime\<close> and \<open>endTime\<close>.\<close>

definition computeWindow :: "host \<Rightarrow> string \<Rightarrow> int \<Rightarrow> exn + string \<times> string" where
  "computeWindow h tz now =
     (case localNow h tz now of Inl e \<Rightarrow> Inl e | Inr wc \<Rightarrow> Inr (startTime wc, endTime wc))"

definition apiUrl :: "host \<Rightarrow> props \<Rightarrow> wallclock \<Rightarrow> string" where
  "apiUrl h p wc =
     ''https://api.open-meteo.com/v1/forecast?latitude='' @ Number_toString h (p_latitude p)
     @ ''&longitude='' @ Number_toString h (p_longitude p)
     @ ''&hourly=temperature_2m&timezone='' @ timezoneId p
     @ ''&start_hour='' @ startTime wc @ ''&end_hour='' @ endTime wc"

section \<open>The cache slot and \<open>fetchData\<close>\<close>

definition cache_key :: string where
  "cache_key = ''cachedWeatherData''"

text \<open>\<open>LocalStorage.setItem("cachedWeatherData", JSON.stringify(data))\<close>.\<close>

definition StaleCache_put :: "host \<Rightarrow> json \<Rightarrow> LocalStorage \<Rightarrow> LocalStorage" where
  "StaleCache_put h d st = setItem cache_key (JSON_stringify h d) st"

text \<open>
  \<open>LocalStorage.getItem("cachedWeatherData")\<close>, then \<open>JSON.parse\<close> when the item is truthy
  (present and not the empty string). \<open>Inr None\<close>: nothing usable is stored; \<open>Inl\<close>:
  \<open>JSON.parse\<close> threw.
\<close>

definition StaleCache_get :: "host \<Rightarrow> LocalStorage \<Rightarrow> (exn + json option) \<times> LocalStorage" where
  "StaleCache_get h st =
     (let (cachedData, st') = getItem cache_key st in
      case cachedData of
        None \<Rightarrow> (Inr None, st')
      | Some c \<Rightarrow>
          if c = [] then (Inr None, st')
          else (case JSON_parse h c of Inl e \<Rightarrow> (Inl e, st') | Inr d \<Rightarrow> (Inr (Some d), st')))"

text \<open>
  The \<open>try\<close> block: every \<open>throw\<close> happens before the first state update, so the block
  either throws and leaves state and storage as they were, or runs to its end.
\<close>

definition fetchData_try :: "host \<Rightarrow> string \<Rightarrow> state \<Rightarrow> LocalStorage \<Rightarrow> exn + state \<times> LocalStorage" where
  "fetchData_try h url s st =
     (case fetch h url of
        Rejected e \<Rightarrow> Inl e
      | Resolved r \<Rightarrow>
          if \<not> ok r then Inl (Error (statusText r))
          else (case JSON_parse h (body r) of
                  Inl e \<Rightarrow> Inl e
                | Inr d \<Rightarrow>
                    Inr (s\<lparr>weather := d, isStale := False, error := None\<rparr>,
                         StaleCache_put h d st)))"

text \<open>
  The \<open>catch\<close> block; the third component is an exception that leaves it (\<open>JSON.parse\<close> of
  the stored item throwing), after \<open>setError\<close> has already run.
\<close>

definition fetchData_catch :: "host \<Rightarrow> exn \<Rightarrow> state \<Rightarrow> LocalStorage \<Rightarrow> state \<times> LocalStorage \<times> exn option" where
  "fetchData_catch h e s st =
     (let s1 = s\<lparr>error := Some e\<rparr> in
      case StaleCache_get h st of
        (Inr None, st') \<Rightarrow> (s1, st', None)
      | (Inr (Some d), st') \<Rightarrow> (s1\<lparr>weather := d, isStale := True\<rparr>, st', None)
      | (Inl e', st') \<Rightarrow> (s1, st', Some e'))"

text \<open>
  \<open>fetchData\<close>: \<open>setIsLoading(true)\<close>, the \<open>try\<close> block, the \<open>catch\<close> block when it threw,
  and \<open>setIsLoading(false)\<close> in \<open>finally\<close>. The result is the state, the storage and the
  exception the returned promise is rejected with, if any.
\<close>

definition fetchData :: "host \<Rightarrow> string \<Rightarrow> state \<Rightarrow> LocalStorage \<Rightarrow> state \<times> LocalStorage \<times> exn option" where
  "fetchData h url s st =
     (let s0 = s\<lparr>isLoading := True\<rparr>;
          (s1, st1, uncaught) =
            (case fetchData_try h url s0 st of
               Inr (s', st') \<Rightarrow> (s', st', None)
             | Inl e \<Rightarrow> fetchData_catch h e s0 st)
      in (s1\<lparr>isLoading := False\<rparr>, st1, uncaught))"

text \<open>
  The request failed: \<open>fetch\<close> rejected, the status is not OK, or the body does not parse.
\<close>

definition fetch_failed :: "host \<Rightarrow> string \<Rightarrow> bool" where
  "fetch_failed h url =
     (case fetch h url of
        Rejected e \<Rightarrow> True
      | Resolved r \<Rightarrow> \<not> ok r \<or> isl (JSON_parse h (body r)))"

section \<open>Rendering the report\<close>

definition labels_of :: "string list \<Rightarrow> string option list" where
  "labels_of ts = map (\<lambda>t. at_index (split_on CHR ''T'' t) 1) ts"

definition formattedDate :: "host \<Rightarrow> wallclock \<Rightarrow> string" where
  "formattedDate h wc = longDate h (year wc) (month wc) (day wc)"

definition chart_title :: "host \<Rightarrow> props \<Rightarrow> wallclock \<Rightarrow> string" where
  "chart_title h p wc = city p @ '', '' @ country p @ '' - '' @ formattedDate h wc"

definition chartConfig_of :: "host \<Rightarrow> props \<Rightarrow> wallclock \<Rightarrow> WeatherResponse \<Rightarrow> chartConfig" where
  "chartConfig_of h p wc w =
     \<lparr>labels = labels_of (time (hourly w)),
      dataset_label = chart_label @ units_temperature_2m (hourly_units w) @ '')'',
      dataset_data = temperature_2m (hourly w),
      title_text = chart_title h p wc,
      suggestedMin = Some (yAxisMin (temperature_2m (hourly w))),
      suggestedMax = Some (yAxisMax (temperature_2m (hourly w))),
      beginAtZero = None\<rparr>"

definition chartUrl :: "host \<Rightarrow> chartConfig \<Rightarrow> string" where
  "chartUrl h cfg = ''https://quickchart.io/chart?w=800&h=400&bkg=white&c='' @ encodeChart h cfg"

text \<open>One table row; \<open>temperature_2m[index]\<close> is \<open>undefined\<close> beyond the end of the array.\<close>

definition table_row :: "host \<Rightarrow> WeatherResponse \<Rightarrow> nat \<times> string \<Rightarrow> string" where
  "table_row h w = (\<lambda>(index, t).
     ''| '' @ t @ '' | ''
     @ (case at_index (temperature_2m (hourly w)) index of
          None \<Rightarrow> ''undefined'' | Some temp \<Rightarrow> Number_toString h temp)
     @ units_temperature_2m (hourly_units w) @ '' |'')"

definition timeSeriesData :: "host \<Rightarrow> WeatherResponse \<Rightarrow> string" where
  "timeSeriesData h w = join ''\<newline>'' (map (table_row h w) (enumerate 0 (time (hourly w))))"

definition staleMessage :: "bool \<Rightarrow> string" where
  "staleMessage stale = (if stale then staleMessage_text else [])"

text \<open>The markdown from the title on (everything after \<open>${staleMessage}\<close>).\<close>

definition report_text :: "host \<Rightarrow> props \<Rightarrow> wallclock \<Rightarrow> WeatherResponse \<Rightarrow> string \<Rightarrow> string" where
  "report_text h p wc w url =
     ''# '' @ city p @ '', '' @ country p @ md_title_tail @ ''\<newline>\<newline>''
     @ md_period @ startTime wc @ md_to @ endTime wc @ ''\<newline>''
     @ md_place @ city p @ '', '' @ country p @ ''\<newline>''
     @ md_coordinates @ Number_toString h (latitude w)
     @ md_longitude @ Number_toString h (longitude w) @ ''\<newline>''
     @ md_timezone @ timezone w @ ''\<newline>''
     @ md_count @ show_nat (length (time (hourly w))) @ md_count_unit @ ''\<newline>\<newline>''
     @ md_graph_heading @ ''\<newline>\<newline>''
     @ md_graph_image @ url @ '')\<newline>\<newline>''
     @ md_table_heading @ ''\<newline>\<newline>''
     @ md_table_header @ ''\<newline>|------|------|\<newline>''
     @ timeSeriesData h w"

definition markdown :: "host \<Rightarrow> props \<Rightarrow> wallclock \<Rightarrow> bool \<Rightarrow> WeatherResponse \<Rightarrow> string \<Rightarrow> string" where
  "markdown h p wc stale w url = staleMessage stale @ report_text h p wc w url"

text \<open>
  One render of \<open>WeatherDisplay\<close> in the caching command, at the instant \<open>now\<close> and in the
  state \<open>s\<close>: the window is computed first (and may throw), then the three early returns,
  then the report. Nothing is written to the console.
\<close>

definition WeatherDisplay_render :: "host \<Rightarrow> int \<Rightarrow> props \<Rightarrow> state \<Rightarrow> rendered" where
  "WeatherDisplay_render h now p s =
     (case localNow h (timezoneId p) now of
        Inl e \<Rightarrow> (Inl e, [])
      | Inr wc \<Rightarrow>
          if isLoading s \<and> weather s = JNull then (Inr Loading, [])
          else if error s \<noteq> None \<and> weather s = JNull then (Inr FetchErrorPanel, [])
          else (case weather s of
                  JForecast w \<Rightarrow>
                    (let url = chartUrl h (chartConfig_of h p wc w) in
                     (Inr (Report (isLoading s \<and> weather s = JNull)
                             (markdown h p wc (isStale s) w url) url), []))
                | _ \<Rightarrow> (Inr Loading, [])))"

text \<open>
  One report generation of \<open>WeatherDisplay\<close>: the component is mounted and rendered at
  \<open>now\<close> (if that render throws, no effect runs), the effect runs \<open>fetchData\<close> on the URL of
  that render from the initial state, and the component is rendered again at \<open>now'\<close>.
\<close>

definition WeatherDisplay :: "host \<Rightarrow> int \<Rightarrow> int \<Rightarrow> props \<Rightarrow> LocalStorage \<Rightarrow> rendered \<times> LocalStorage" where
  "WeatherDisplay h now now' p st =
     (case localNow h (timezoneId p) now of
        Inl e \<Rightarrow> ((Inl e, []), st)
      | Inr wc \<Rightarrow>
          (let (s, st', uncaught) = fetchData h (apiUrl h p wc) initial_state st
           in (WeatherDisplay_render h now' p s, st')))"

text \<open>The props \<open>Command\<close> passes on.\<close>

definition props_of :: "LocationResponse \<Rightarrow> props" where
  "props_of l =
     \<lparr>p_latitude = loc_latitude l, p_longitude = loc_longitude l, city = loc_city l,
      country = loc_country l, timezoneId = timezone_id l\<rparr>"

text \<open>\<open>locationError || !locationData || !locationData.success\<close>.\<close>

definition location_failed :: "LocationResponse option useFetch \<Rightarrow> bool" where
  "location_failed loc =
     (uf_error loc \<noteq> None \<or> data loc = None
      \<or> (case data loc of None \<Rightarrow> True | Some l \<Rightarrow> \<not> success l))"

text \<open>\<open>Command\<close> of the caching command, given what \<open>useFetch("https://ipwho.is/")\<close> returned.\<close>

definition Command :: "host \<Rightarrow> int \<Rightarrow> int \<Rightarrow> LocationResponse option useFetch \<Rightarrow> LocalStorage \<Rightarrow> rendered \<times> LocalStorage" where
  "Command h now now' loc st =
     (if uf_isLoading loc then ((Inr Locating, []), st)
      else if location_failed loc then ((Inr LocationErrorPanel, []), st)
      else (case data loc of
              None \<Rightarrow> ((Inr LocationErrorPanel, []), st)
            | Some l \<Rightarrow> WeatherDisplay h now now' (props_of l) st))"

section \<open>The command in \<open>temperature.tsx\<close>\<close>

text \<open>
  The same component without state and cache: the forecast comes from \<open>useFetch(apiUrl)\<close>,
  the chart has no axis bounds, the markdown starts and ends with a newline, and every
  render that reaches the report writes the chart title to the console.
\<close>

definition temperature_chartConfig :: "host \<Rightarrow> props \<Rightarrow> wallclock \<Rightarrow> WeatherResponse \<Rightarrow> chartConfig" where
  "temperature_chartConfig h p wc w =
     \<lparr>labels = labels_of (time (hourly w)),
      dataset_label = chart_label @ units_temperature_2m (hourly_units w) @ '')'',
      dataset_data = temperature_2m (hourly w),
      title_text = chart_title h p wc,
      suggestedMin = None,
      suggestedMax = None,
      beginAtZero = Some False\<rparr>"

definition temperature_markdown :: "host \<Rightarrow> props \<Rightarrow> wallclock \<Rightarrow> WeatherResponse \<Rightarrow> string \<Rightarrow> string" where
  "temperature_markdown h p wc w url = ''\<newline>'' @ report_text h p wc w url @ ''\<newline>''"

definition temperature_WeatherDisplay :: "host \<Rightarrow> int \<Rightarrow> props \<Rightarrow> json useFetch \<Rightarrow> rendered" where
  "temperature_WeatherDisplay h now p uf =
     (case localNow h (timezoneId p) now of
        Inl e \<Rightarrow> (Inl e, [])
      | Inr wc \<Rightarrow>
          if uf_error uf \<noteq> None then (Inr FetchErrorPanel, [])
          else (case data uf of
                  JForecast w \<Rightarrow>
                    (let url = chartUrl h (temperature_chartConfig h p wc w) in
                     (Inr (Report (uf_isLoading uf) (temperature_markdown h p wc w url) url),
                      [''Chart title: '' @ chart_title h p wc]))
                | _ \<Rightarrow> (Inr Loading, [])))"

definition temperature_Command :: "host \<Rightarrow> int \<Rightarrow> LocationResponse option useFetch \<Rightarrow> json useFetch \<Rightarrow> rendered" where
  "temperature_Command h now loc uf =
     (if uf_isLoading loc then (Inr Locating, [])
      else if location_failed loc then (Inr LocationErrorPanel, [])
      else (case data loc of
              None \<Rightarrow> (Inr LocationErrorPanel, [])
            | Some l \<Rightarrow> temperature_WeatherDisplay h now (props_of l) uf))"

section \<open>The current-weather command\<close>

text \<open>A numeric literal denotes the double nearest to it.\<close>

definition TOKYO_LATITUDE :: number where
  "TOKYO_LATITUDE = to_number 35.6762"

definition TOKYO_LONGITUDE :: number where
  "TOKYO_LONGITUDE = to_number 139.6503"

definition current_apiUrl :: "host \<Rightarrow> string" where
  "current_apiUrl h =
     ''https://api.open-meteo.com/v1/forecast?latitude='' @ Number_toString h TOKYO_LATITUDE
     @ ''&longitude='' @ Number_toString h TOKYO_LONGITUDE
     @ ''&current=temperature_2m,relative_humidity_2m,weather_code,wind_speed_10m''"

definition parseResponse :: "host \<Rightarrow> response \<Rightarrow> exn + json" where
  "parseResponse h r =
     (if \<not> ok r then Inl (Error (''HTTP error! status: '' @ show_nat (status r)))
      else JSON_parse h (body r))"

text \<open>
  What \<open>useFetch(url, {parseResponse})\<close> returns once the request has settled: the parsed
  data, or the error that \<open>fetch\<close> or \<open>parseResponse\<close> threw.
\<close>

definition useFetch_settled :: "(response \<Rightarrow> exn + json) \<Rightarrow> fetch_outcome \<Rightarrow> json useFetch" where
  "useFetch_settled parse outcome =
     (case outcome of
        Rejected e \<Rightarrow> \<lparr>data = JNull, uf_isLoading = False, uf_error = Some e\<rparr>
      | Resolved r \<Rightarrow>
          (case parse r of
             Inl e \<Rightarrow> \<lparr>data = JNull, uf_isLoading = False, uf_error = Some e\<rparr>
           | Inr d \<Rightarrow> \<lparr>data = d, uf_isLoading = False, uf_error = None\<rparr>))"

definition current_markdown :: "host \<Rightarrow> CurrentResponse \<Rightarrow> string" where
  "current_markdown h d =
     ''\<newline>'' @ cur_title @ ''\<newline>\<newline>''
     @ cur_basic_heading @ ''\<newline>''
     @ cur_time @ cur_time_of (current d) @ ''\<newline>''
     @ cur_coordinates @ Number_toString h (cur_latitude d)
     @ md_longitude @ Number_toString h (cur_longitude d) @ ''\<newline>\<newline>''
     @ cur_data_heading @ ''\<newline>''
     @ cur_temperature @ Number_toString h (cur_temperature_2m (current d))
     @ cu_temperature_2m (current_units d) @ ''\<newline>''
     @ cur_humidity @ Number_toString h (relative_humidity_2m (current d))
     @ cu_relative_humidity_2m (current_units d) @ ''\<newline>''
     @ cur_wind @ Number_toString h (wind_speed_10m (current d))
     @ cu_wind_speed_10m (current_units d) @ ''\<newline>''
     @ cur_code @ Number_toString h (weather_code (current d)) @ ''\<newline>''"

text \<open>
  One render of \<open>Command\<close> in the current-weather command: \<open>data.current.time\<close> throws
  TypeError when the data has no \<open>current\<close> member.
\<close>

definition current_render :: "host \<Rightarrow> json useFetch \<Rightarrow> rendered" where
  "current_render h uf =
     (case uf_error uf of
        Some e \<Rightarrow> (Inr (CurrentErrorPanel e (current_apiUrl h)), [])
      | None \<Rightarrow>
          (case data uf of
             JNull \<Rightarrow> (Inr Loading, [])
           | JCurrent d \<Rightarrow> (Inr (CurrentReport (uf_isLoading uf) (current_markdown h d)), [])
           | _ \<Rightarrow> (Inl TypeError, [])))"

definition current_Command :: "host \<Rightarrow> rendered" where
  "current_Command h =
     current_render h (useFetch_settled (parseResponse h) (fetch h (current_apiUrl h)))"

section \<open>\<open>JSON.stringify\<close> and \<open>JSON.parse\<close>\<close>

text \<open>
  The cache slot holds the text that \<open>JSON.stringify\<close> makes of the forecast, and reading
  the slot applies \<open>JSON.parse\<close> to that text. Both are given here on JavaScript values and
  on JSON texts as syntax trees; how a tree is written in characters is left to a printer
  and a reader.
\<close>

text \<open>
  A JavaScript value as \<open>JSON.parse\<close> can return it. An object is the list of its members
  in the order of insertion.
\<close>

datatype jsvalue =
  VNull | VBool bool | VNum number | VStr string | VArr "jsvalue list"
  | VObj "(string \<times> jsvalue) list"

text \<open>
  A JSON text. A number token is held as the real number it denotes; the grammar has no
  token for an infinity or for \<open>NaN\<close>.
\<close>

datatype jtext =
  TNull | TBool bool | TNum real | TStr string | TArr "jtext list"
  | TObj "(string \<times> jtext) list"

text \<open>
  \<open>JSON.stringify\<close> on such a value: a finite number is written as a token that reads
  back as the number (JavaScript writes the shortest such token; the token here denotes
  the number itself), and a number that is not finite is written as \<open>null\<close>.
\<close>

primrec stringify_value :: "jsvalue \<Rightarrow> jtext" where
  "stringify_value VNull = TNull"
| "stringify_value (VBool b) = TBool b"
| "stringify_value (VNum n) = (case n of Num x \<Rightarrow> TNum x | _ \<Rightarrow> TNull)"
| "stringify_value (VStr s) = TStr s"
| "stringify_value (VArr vs) = TArr (map stringify_value vs)"
| "stringify_value (VObj ms) = TObj (map (map_prod id stringify_value) ms)"

text \<open>
  \<open>JSON.parse\<close> on a text: a number token becomes the nearest double, or an infinity when
  that is beyond the range of doubles.
\<close>

primrec parse_text :: "jtext \<Rightarrow> jsvalue" where
  "parse_text TNull = VNull"
| "parse_text (TBool b) = VBool b"
| "parse_text (TNum r) = VNum (to_number r)"
| "parse_text (TStr s) = VStr s"
| "parse_text (TArr ts) = VArr (map parse_text ts)"
| "parse_text (TObj ms) = VObj (map (map_prod id parse_text) ms)"

text \<open>
  Member access \<open>v.k\<close>; where a text repeats a key, the last member wins. \<open>None\<close> is
  \<open>undefined\<close>.
\<close>

definition property :: "string \<Rightarrow> jsvalue \<Rightarrow> jsvalue option" where
  "property k v = (case v of VObj ms \<Rightarrow> map_of (rev ms) k | _ \<Rightarrow> None)"

text \<open>A value as a number, a string, an array of numbers or an array of strings.\<close>

definition as_number :: "jsvalue \<Rightarrow> number option" where
  "as_number v = (case v of VNum n \<Rightarrow> Some n | _ \<Rightarrow> None)"

definition as_string :: "jsvalue \<Rightarrow> string option" where
  "as_string v = (case v of VStr s \<Rightarrow> Some s | _ \<Rightarrow> None)"

definition as_numbers :: "jsvalue \<Rightarrow> number list option" where
  "as_numbers v = (case v of VArr vs \<Rightarrow> those (map as_number vs) | _ \<Rightarrow> None)"

definition as_strings :: "jsvalue \<Rightarrow> string list option" where
  "as_strings v = (case v of VArr vs \<Rightarrow> those (map as_string vs) | _ \<Rightarrow> None)"

text \<open>
  A value read at the interface \<open>WeatherResponse\<close> of the hourly command: every member the
  interface names is there with the type the interface gives it.
\<close>

definition forecast_of :: "jsvalue \<Rightarrow> WeatherResponse option" where
  "forecast_of v =
     Option.bind (Option.bind (property ''latitude'' v) as_number) (\<lambda>lat.
     Option.bind (Option.bind (property ''longitude'' v) as_number) (\<lambda>lon.
     Option.bind (Option.bind (property ''timezone'' v) as_string) (\<lambda>tz.
     Option.bind (property ''hourly'' v) (\<lambda>h.
     Option.bind (Option.bind (property ''time'' h) as_strings) (\<lambda>ts.
     Option.bind (Option.bind (property ''temperature_2m'' h) as_numbers) (\<lambda>xs.
     Option.bind (property ''hourly_units'' v) (\<lambda>u.
     Option.bind (Option.bind (property ''time'' u) as_string) (\<lambda>ut.
     Option.bind (Option.bind (property ''temperature_2m'' u) as_string) (\<lambda>uc.
     Some \<lparr>latitude = lat, longitude = lon, timezone = tz,
            hourly = \<lparr>time = ts, temperature_2m = xs\<rparr>,
            hourly_units = \<lparr>units_time = ut, units_temperature_2m = uc\<rparr>\<rparr>)))))))))"

text \<open>The same for the interface of the current-weather command.\<close>

definition current_of :: "jsvalue \<Rightarrow> CurrentResponse option" where
  "current_of v =
     Option.bind (Option.bind (property ''latitude'' v) as_number) (\<lambda>lat.
     Option.bind (Option.bind (property ''longitude'' v) as_number) (\<lambda>lon.
     Option.bind (property ''current'' v) (\<lambda>c.
     Option.bind (Option.bind (property ''time'' c) as_string) (\<lambda>t.
     Option.bind (Option.bind (property ''temperature_2m'' c) as_number) (\<lambda>temp.
     Option.bind (Option.bind (property ''relative_humidity_2m'' c) as_number) (\<lambda>hum.
     Option.bind (Option.bind (property ''weather_code'' c) as_number) (\<lambda>code.
     Option.bind (Option.bind (property ''wind_speed_10m'' c) as_number) (\<lambda>wind.
     Option.bind (property ''current_units'' v) (\<lambda>u.
     Option.bind (Option.bind (property ''temperature_2m'' u) as_string) (\<lambda>ut.
     Option.bind (Option.bind (property ''relative_humidity_2m'' u) as_string) (\<lambda>uh.
     Option.bind (Option.bind (property ''wind_speed_10m'' u) as_string) (\<lambda>uw.
     Some \<lparr>cur_latitude = lat, cur_longitude = lon,
            current = \<lparr>cur_time_of = t, cur_temperature_2m = temp, relative_humidity_2m = hum,
                        weather_code = code, wind_speed_10m = wind\<rparr>,
            current_units = \<lparr>cu_temperature_2m = ut, cu_relative_humidity_2m = uh,
                              cu_wind_speed_10m = uw\<rparr>\<rparr>))))))))))))"

text \<open>
  The decoded body a value is: \<open>null\<close>, a forecast, a current-weather answer (with no
  \<open>hourly\<close> member), or an object with neither an \<open>hourly\<close> nor a \<open>current\<close> member.
  \<open>None\<close>: the value is none of these (a forecast with \<open>null\<close> where the interface has a
  number, say).
\<close>

definition of_jsvalue :: "jsvalue \<Rightarrow> json option" where
  "of_jsvalue v =
     (case v of
        VNull \<Rightarrow> Some JNull
      | VObj ms \<Rightarrow>
          (case forecast_of v of
             Some w \<Rightarrow> Some (JForecast w)
           | None \<Rightarrow>
               if property ''hourly'' v \<noteq> None then None
               else (case current_of v of
                       Some c \<Rightarrow> Some (JCurrent c)
                     | None \<Rightarrow> if property ''current'' v = None then Some JOther else None))
      | _ \<Rightarrow> None)"

text \<open>The value a decoded body is, with the members of its interface in their order.\<close>

definition to_jsvalue :: "json \<Rightarrow> jsvalue" where
  "to_jsvalue d =
     (case d of
        JNull \<Rightarrow> VNull
      | JForecast w \<Rightarrow>
          VObj [(''latitude'', VNum (latitude w)), (''longitude'', VNum (longitude w)),
                (''timezone'', VStr (timezone w)),
                (''hourly'',
                 VObj [(''time'', VArr (map VStr (time (hourly w)))),
                       (''temperature_2m'', VArr (map VNum (temperature_2m (hourly w))))]),
                (''hourly_units'',
                 VObj [(''time'', VStr (units_time (hourly_units w))),
                       (''temperature_2m'', VStr (units_temperature_2m (hourly_units w)))])]
      | JCurrent c \<Rightarrow>
          VObj [(''latitude'', VNum (cur_latitude c)), (''longitude'', VNum (cur_longitude c)),
                (''current'',
                 VObj [(''time'', VStr (cur_time_of (current c))),
                       (''temperature_2m'', VNum (cur_temperature_2m (current c))),
                       (''relative_humidity_2m'', VNum (relative_humidity_2m (current c))),
                       (''weather_code'', VNum (weather_code (current c))),
                       (''wind_speed_10m'', VNum (wind_speed_10m (current c)))]),
                (''current_units'',
                 VObj [(''temperature_2m'', VStr (cu_temperature_2m (current_units c))),
                       (''relative_humidity_2m'', VStr (cu_relative_humidity_2m (current_units c))),
                       (''wind_speed_10m'', VStr (cu_wind_speed_10m (current_units c)))])]
      | JOther \<Rightarrow> VObj [])"

text \<open>
  A number that is a finite double, and a decoded body all of whose numbers are.
\<close>

definition finite_double :: "number \<Rightarrow> bool" where
  "finite_double n = (case n of Num x \<Rightarrow> is_double x | _ \<Rightarrow> False)"

definition json_finite :: "json \<Rightarrow> bool" where
  "json_finite d =
     (case d of
        JForecast w \<Rightarrow>
          finite_double (latitude w) \<and> finite_double (longitude w)
          \<and> list_all finite_double (temperature_2m (hourly w))
      | JCurrent c \<Rightarrow>
          finite_double (cur_latitude c) \<and> finite_double (cur_longitude c)
          \<and> finite_double (cur_temperature_2m (current c))
          \<and> finite_double (relative_humidity_2m (current c))
          \<and> finite_double (weather_code (current c))
          \<and> finite_double (wind_speed_10m (current c))
      | _ \<Rightarrow> True)"

text \<open>An infinity, and a decoded body one of whose numbers is an infinity.\<close>

definition infinite_number :: "number \<Rightarrow> bool" where
  "infinite_number n = (n = PosInfinity \<or> n = NegInfinity)"

definition json_infinite :: "json \<Rightarrow> bool" where
  "json_infinite d =
     (case d of
        JForecast w \<Rightarrow>
          infinite_number (latitude w) \<or> infinite_number (longitude w)
          \<or> list_ex infinite_number (temperature_2m (hourly w))
      | JCurrent c \<Rightarrow>
          infinite_number (cur_latitude c) \<or> infinite_number (cur_longitude c)
          \<or> infinite_number (cur_temperature_2m (current c))
          \<or> infinite_number (relative_humidity_2m (current c))
          \<or> infinite_number (weather_code (current c))
          \<or> infinite_number (wind_speed_10m (current c))
      | _ \<Rightarrow> False)"

text \<open>
  A host whose \<open>JSON.stringify\<close> and \<open>JSON.parse\<close> are the two functions above, over a
  printer and a reader of characters. Where the value read is none of the decoded bodies,
  the answer is left to the host underneath.
\<close>

definition platform_codec :: "(jtext \<Rightarrow> string) \<Rightarrow> (string \<Rightarrow> exn + jtext) \<Rightarrow> host \<Rightarrow> host" where
  "platform_codec print read h =
     h\<lparr>JSON_stringify := (\<lambda>d. print (stringify_value (to_jsvalue d))),
       JSON_parse := (\<lambda>s. case read s of
                             Inl e \<Rightarrow> Inl e
                           | Inr t \<Rightarrow> (case of_jsvalue (parse_text t) of
                                        Some d \<Rightarrow> Inr d
                                      | None \<Rightarrow> JSON_parse h s))\<rparr>"

section \<open>A concrete host and concrete data\<close>

text \<open>
  A clock for one day: instants are counted in seconds from local midnight of
  30 October 2025.
\<close>

definition example_clock :: "int \<Rightarrow> wallclock" where
  "example_clock t =
     \<lparr>year = 2025, month = 10, day = 30, hour = nat (t div 3600) mod 24,
      minute = nat (t div 60) mod 60, second = nat t mod 60\<rparr>"

definition example_forecast :: WeatherResponse where
  "example_forecast =
     \<lparr>latitude = Num 35.5, longitude = Num 139.75, timezone = ''Asia/Tokyo'',
      hourly = \<lparr>time = [''2025-10-30T05:00'', ''2025-10-30T06:00'', ''2025-10-30T07:00''],
                temperature_2m = [Num (-2), Num 12.5, Num 41]\<rparr>,
      hourly_units = \<lparr>units_time = ''iso8601'', units_temperature_2m = ''C''\<rparr>\<rparr>"

definition example_current :: CurrentResponse where
  "example_current =
     \<lparr>cur_latitude = Num 35.5, cur_longitude = Num 139.75,
      current = \<lparr>cur_time_of = ''2025-10-30T15:00'', cur_temperature_2m = Num 18,
                 relative_humidity_2m = Num 60, weather_code = Num 3, wind_speed_10m = Num 7\<rparr>,
      current_units = \<lparr>cu_temperature_2m = ''C'', cu_relative_humidity_2m = ''%'',
                       cu_wind_speed_10m = ''km/h''\<rparr>\<rparr>"

text \<open>Numbers are printed by their integer part (exact on whole numbers).\<close>

definition example_toString :: "number \<Rightarrow> string" where
  "example_toString n =
     (case n of
        Num r \<Rightarrow> (if r < 0 then ''-'' else []) @ show_nat (nat \<lfloor>\<bar>r\<bar>\<rfloor>)
      | PosInfinity \<Rightarrow> ''Infinity''
      | NegInfinity \<Rightarrow> ''-Infinity''
      | NaN \<Rightarrow> ''NaN'')"

text \<open>A JSON codec given by a table of four texts.\<close>

definition example_stringify :: "json \<Rightarrow> string" where
  "example_stringify d =
     (case d of
        JNull \<Rightarrow> ''null''
      | JForecast w \<Rightarrow> (if w = example_forecast then ''<forecast>'' else ''{}'')
      | JCurrent c \<Rightarrow> (if c = example_current then ''<current>'' else ''{}'')
      | JOther \<Rightarrow> ''{}'')"

definition example_parse :: "string \<Rightarrow> exn + json" where
  "example_parse s =
     (if s = ''null'' then Inr JNull
      else if s = ''<forecast>'' then Inr (JForecast example_forecast)
      else if s = ''<current>'' then Inr (JCurrent example_current)
      else if s = ''{}'' then Inr JOther
      else Inl SyntaxError)"

definition example_host :: host where
  "example_host =
     \<lparr>timeZone = (\<lambda>tz. if tz = ''Asia/Tokyo'' then Some example_clock else None),
      longDate = (\<lambda>y m d. show_nat y @ ''/'' @ show_nat m @ ''/'' @ show_nat d),
      Number_toString = example_toString,
      encodeChart = (\<lambda>cfg. title_text cfg),
      JSON_stringify = example_stringify,
      JSON_parse = example_parse,
      fetch = (\<lambda>url. Rejected (Error ''network down''))\<rparr>"

definition example_props :: props where
  "example_props =
     \<lparr>p_latitude = Num 35.5, p_longitude = Num 139.75, city = ''Tokyo'', country = ''Japan'',
      timezoneId = ''Asia/Tokyo''\<rparr>"

text \<open>The same host with a network that answers every request with one response.\<close>

definition example_host_answering :: "response \<Rightarrow> host" where
  "example_host_answering r = example_host\<lparr>fetch := (\<lambda>url. Resolved r)\<rparr>"

definition empty_storage :: LocalStorage where
  "empty_storage = \<lparr>items = Map.empty, calls = []\<rparr>"

definition example_storage :: LocalStorage where
  "example_storage = \<lparr>items = [cache_key \<mapsto> ''<forecast>''], calls = []\<rparr>"

definition example_response :: "string \<Rightarrow> response" where
  "example_response b = \<lparr>ok = True, status = 200, statusText = ''OK'', body = b\<rparr>"

text \<open>A location answer with the success flag false.\<close>

definition example_location_failure :: LocationResponse where
  "example_location_failure =
     \<lparr>success = False, loc_latitude = Num 0, loc_longitude = Num 0, loc_city = [],
      loc_country = [], timezone_id = []\<rparr>"

text \<open>
  The example forecast as a JSON text, a forecast whose latitude is \<open>Infinity\<close> and the
  text \<open>JSON.stringify\<close> makes of it, and a response body whose latitude is the token
  \<open>1e999\<close>.
\<close>

definition example_text :: jtext where
  "example_text = stringify_value (to_jsvalue (JForecast example_forecast))"

definition overflow_forecast :: WeatherResponse where
  "overflow_forecast = example_forecast\<lparr>latitude := PosInfinity\<rparr>"

definition overflow_text :: jtext where
  "overflow_text = stringify_value (to_jsvalue (JForecast overflow_forecast))"

definition overflow_body :: jtext where
  "overflow_body =
     TObj [(''latitude'', TNum (10 ^ 999)), (''longitude'', TNum 139.75),
           (''timezone'', TStr ''Asia/Tokyo''),
           (''hourly'',
            TObj [(''time'', TArr [TStr ''2025-10-30T05:00'', TStr ''2025-10-30T06:00'',
                                   TStr ''2025-10-30T07:00'']),
                  (''temperature_2m'', TArr [TNum (-2), TNum 12.5, TNum 41])]),
           (''hourly_units'',
            TObj [(''time'', TStr ''iso8601''), (''temperature_2m'', TStr ''C'')])]"

text \<open>A printer and a reader given by a table of texts.\<close>

definition example_print :: "jtext \<Rightarrow> string" where
  "example_print t =
     (if t = example_text then ''<forecast>''
      else if t = overflow_text then ''<forecast, latitude null>''
      else ''{}'')"

definition example_read :: "string \<Rightarrow> exn + jtext" where
  "example_read s =
     (if s = ''<forecast>'' then Inr example_text
      else if s = ''<forecast, latitude null>'' then Inr overflow_text
      else if s = ''<forecast, latitude 1e999>'' then Inr overflow_body
      else if s = ''{}'' then Inr (TObj [])
      else Inl SyntaxError)"

section \<open>Properties of rounding to the nearest double\<close>

lemma round_half_even_of_int: "round_half_even (of_int k) = k"
  by (simp add: round_half_even_def)

lemma ulp_exponent_le:
  assumes "x \<noteq> 0" and "\<bar>x\<bar> < 2 powi (53 + e)" and "- 1074 \<le> e"
  shows "ulp_exponent x \<le> e"
proof -
  let ?k = "\<lfloor>log 2 \<bar>x\<bar>\<rfloor>"
  have "2 powr of_int ?k \<le> \<bar>x\<bar>"
    using assms(1) floor_log_eq_powr_iff [of "\<bar>x\<bar>" 2 ?k] by simp
  also have "\<bar>x\<bar> < 2 powi (53 + e)"
    by (rule assms(2))
  also have "(2::real) powi (53 + e) = 2 powr of_int (53 + e)"
    by (rule powr_real_of_int' [symmetric]) simp_all
  finally have "(2::real) powr of_int ?k < 2 powr of_int (53 + e)" .
  then have "of_int ?k < (of_int (53 + e) :: real)"
    by (simp only: powr_less_cancel_iff one_less_numeral_iff semiring_norm)
  then have "?k < 53 + e"
    by linarith
  with assms(3) show ?thesis
    by (simp add: ulp_exponent_def)
qed

lemma nearest_double_multiple:
  assumes "ulp_exponent (of_int k * 2 powi e) \<le> e"
  shows "nearest_double (of_int k * 2 powi e) = of_int k * 2 powi e"
proof (cases "k = 0")
  case True
  then show ?thesis by (simp add: nearest_double_def)
next
  case False
  let ?x = "of_int k * (2::real) powi e"
  let ?u = "ulp_exponent ?x"
  have "(2::real) powi e / 2 powi ?u = 2 powi (e - ?u)"
    by (simp add: power_int_diff)
  also have "\<dots> = 2 ^ nat (e - ?u)"
    using assms by (simp add: power_int_def)
  finally have "(2::real) powi e / 2 powi ?u = 2 ^ nat (e - ?u)" .
  then have "?x / 2 powi ?u = of_int k * 2 ^ nat (e - ?u)"
    by (simp only: times_divide_eq_right [symmetric])
  then have q: "?x / 2 powi ?u = of_int (k * 2 ^ nat (e - ?u))"
    by simp
  have "nearest_double ?x = 2 powi ?u * of_int (round_half_even (?x / 2 powi ?u))"
    using False by (simp add: nearest_double_def)
  also have "\<dots> = 2 powi ?u * (?x / 2 powi ?u)"
    by (simp only: q round_half_even_of_int)
  also have "\<dots> = ?x"
    by simp
  finally show ?thesis .
qed

lemma nearest_double_exact:
  assumes "\<bar>k\<bar> < 2 ^ 53" and "- 1074 \<le> e"
  shows "nearest_double (of_int k * 2 powi e) = of_int k * 2 powi e"
proof (cases "k = 0")
  case True
  then show ?thesis by (simp add: nearest_double_def)
next
  case False
  have "\<bar>of_int k * (2::real) powi e\<bar> = of_int \<bar>k\<bar> * 2 powi e"
    by (simp add: abs_mult)
  also have "\<dots> < 2 ^ 53 * 2 powi e"
  proof -
    have "(of_int \<bar>k\<bar> :: real) < of_int (2 ^ 53)"
      using assms(1) by (simp only: of_int_less_iff)
    then show ?thesis by simp
  qed
  also have "\<dots> = 2 powi (53 + e)"
    by (simp add: power_int_add)
  finally have lt: "\<bar>of_int k * (2::real) powi e\<bar> < 2 powi (53 + e)" .
  have nz: "of_int k * (2::real) powi e \<noteq> 0"
    using False by simp
  have "ulp_exponent (of_int k * 2 powi e) \<le> e"
    using nz lt assms(2) by (rule ulp_exponent_le)
  then show ?thesis
    by (rule nearest_double_multiple)
qed

lemma nearest_double_int:
  assumes "\<bar>n\<bar> \<le> 2 ^ 53"
  shows "nearest_double (of_int n) = of_int n"
proof (cases "\<bar>n\<bar> < 2 ^ 53")
  case True
  then show ?thesis
    using nearest_double_exact [of n 0] by simp
next
  case False
  with assms have "n = 2 ^ 53 \<or> n = - (2 ^ 53)"
    by linarith
  then show ?thesis
    using nearest_double_exact [of 1 53] nearest_double_exact [of "-1" 53] by auto
qed

lemma double_bound_powi: "double_bound = 2 powi 1024"
  unfolding double_bound_def by (simp only: power_int_numeral)

lemma double_bound_pos: "0 < double_bound"
  unfolding double_bound_def by (rule zero_less_power) simp

lemma safe_less_double_bound: "(2::real) ^ 53 < double_bound"
  unfolding double_bound_def by (rule power_strict_increasing) simp_all

lemma round_half_even_ge_floor: "\<lfloor>y\<rfloor> \<le> round_half_even y"
  by (simp add: round_half_even_def Let_def)

lemma nearest_double_overflow:
  assumes "double_bound \<le> x"
  shows "double_bound \<le> nearest_double x"
proof -
  let ?k = "\<lfloor>log 2 \<bar>x\<bar>\<rfloor>"
  have pos: "0 < x"
    using double_bound_pos assms by (rule less_le_trans)
  have "(2::real) powr of_int 1024 = 2 powi 1024"
    by (rule powr_real_of_int') simp_all
  with assms have "(2::real) powr of_int 1024 \<le> x"
    by (simp only: double_bound_powi)
  then have "of_int 1024 \<le> log 2 x"
    using pos by (simp only: le_log_iff one_less_numeral_iff semiring_norm)
  then have k: "1024 \<le> ?k"
    using pos by (simp add: le_floor_iff)
  then have u: "ulp_exponent x = ?k - 52"
    by (simp add: ulp_exponent_def)
  have "2 powr of_int ?k \<le> \<bar>x\<bar>"
    using pos floor_log_eq_powr_iff [of "\<bar>x\<bar>" 2 ?k] by simp
  moreover have "(2::real) powr of_int ?k = 2 powi ?k"
    by (rule powr_real_of_int') simp_all
  ultimately have le: "2 powi ?k \<le> x"
    using pos by simp
  have "(2::real) ^ 52 = 2 powi ?k / 2 powi (?k - 52)"
    by (simp add: power_int_diff)
  also have "\<dots> \<le> x / 2 powi (?k - 52)"
    using le by (simp add: divide_right_mono)
  finally have "of_int (2 ^ 52) \<le> x / 2 powi (?k - 52)"
    by simp
  then have "2 ^ 52 \<le> \<lfloor>x / 2 powi (?k - 52)\<rfloor>"
    by (simp only: le_floor_iff)
  also have "\<dots> \<le> round_half_even (x / 2 powi (?k - 52))"
    by (rule round_half_even_ge_floor)
  finally have "(of_int (2 ^ 52) :: real) \<le> of_int (round_half_even (x / 2 powi (?k - 52)))"
    by (simp only: of_int_le_iff)
  then have r: "(2::real) ^ 52 \<le> of_int (round_half_even (x / 2 powi (?k - 52)))"
    by simp
  have "double_bound \<le> 2 powi ?k"
    unfolding double_bound_powi using k by (rule power_int_increasing) simp
  also have "\<dots> = 2 powi (?k - 52) * 2 ^ 52"
    by (simp add: power_int_diff)
  also have "\<dots> \<le> 2 powi (?k - 52) * of_int (round_half_even (x / 2 powi (?k - 52)))"
    using r by (simp add: mult_left_mono)
  also have "\<dots> = nearest_double x"
    using pos by (simp add: nearest_double_def u)
  finally show ?thesis .
qed

lemma to_number_overflow: "double_bound \<le> x \<Longrightarrow> to_number x = PosInfinity"
  by (simp add: to_number_def nearest_double_overflow)

lemma to_number_double: "is_double x \<Longrightarrow> to_number x = Num x"
  using double_bound_pos by (auto simp add: to_number_def is_double_def)

lemma is_double_int:
  assumes "\<bar>n\<bar> \<le> 2 ^ 53"
  shows "is_double (of_int n)"
proof -
  have "\<bar>of_int n :: real\<bar> = of_int \<bar>n\<bar>"
    by simp
  also have "\<dots> \<le> of_int (2 ^ 53)"
    using assms by (simp only: of_int_le_iff)
  also have "\<dots> = 2 ^ 53"
    by simp
  also have "\<dots> < double_bound"
    by (rule safe_less_double_bound)
  finally show ?thesis
    using assms by (simp add: is_double_def nearest_double_int)
qed

lemma is_double_dyadic:
  assumes "\<bar>k\<bar> < 2 ^ 53" and "- 1074 \<le> e" and "e \<le> 0"
  shows "is_double (of_int k * 2 powi e)"
proof -
  have "(2::real) powi e \<le> 2 powi 0"
    using assms(3) by (rule power_int_increasing) simp
  then have "\<bar>of_int k * (2::real) powi e\<bar> \<le> \<bar>of_int k\<bar>"
    by (simp add: abs_mult mult_left_le)
  also have "\<dots> = of_int \<bar>k\<bar>"
    by simp
  also have "\<dots> < of_int (2 ^ 53)"
    using assms(1) by (simp only: of_int_less_iff)
  also have "\<dots> = 2 ^ 53"
    by simp
  also have "\<dots> < double_bound"
    by (rule safe_less_double_bound)
  finally show ?thesis
    using assms(1,2) by (simp add: is_double_def nearest_double_exact)
qed

lemma double_bound_le_1e999: "double_bound \<le> 10 ^ 999"
proof -
  have "double_bound \<le> (2::real) ^ 2997"
    unfolding double_bound_def by (rule power_increasing) simp_all
  also have "\<dots> = (2 ^ 3) ^ 999"
    by (simp only: power_mult [symmetric]) simp
  also have "\<dots> \<le> 10 ^ 999"
    by (rule power_mono) simp_all
  finally show ?thesis .
qed

lemma nearest_double_above_safe: "nearest_double 9007199254740993 = 9007199254740992"
proof -
  have "\<lfloor>log 2 \<bar>9007199254740993::real\<bar>\<rfloor> = 53"
    by (simp add: floor_log_eq_powr_iff)
  then have u: "ulp_exponent 9007199254740993 = 1"
    by (simp add: ulp_exponent_def)
  show ?thesis
    by (simp add: nearest_double_def u round_half_even_def)
qed



lemma to_number_int:
  assumes "\<bar>n\<bar> \<le> 2 ^ 53"
  shows "to_number (of_int n) = Num (of_int n)"
  using assms by (simp only: to_number_double is_double_int)

lemma abs_less_ulp:
  assumes "x \<noteq> 0"
  shows "\<bar>x\<bar> < 2 powi (53 + ulp_exponent x)"
proof -
  let ?k = "\<lfloor>log 2 \<bar>x\<bar>\<rfloor>"
  have "\<bar>x\<bar> < 2 powr of_int (?k + 1)"
    using assms floor_log_eq_powr_iff [of "\<bar>x\<bar>" 2 ?k] by simp
  also have "(2::real) powr of_int (?k + 1) = 2 powi (?k + 1)"
    by (rule powr_real_of_int') simp_all
  also have "\<dots> \<le> 2 powi (53 + ulp_exponent x)"
    by (rule power_int_increasing) (simp_all add: ulp_exponent_def)
  finally show ?thesis .
qed

lemma round_half_even_le_floor: "round_half_even y \<le> \<lfloor>y\<rfloor> + 1"
  by (simp add: round_half_even_def Let_def)

lemma round_half_even_bound:
  assumes "\<bar>y\<bar> < 2 ^ 53"
  shows "\<bar>round_half_even y\<bar> \<le> 2 ^ 53"
proof -
  have "y < of_int (2 ^ 53)"
    using assms by simp
  then have "\<lfloor>y\<rfloor> < 2 ^ 53"
    by (simp only: floor_less_iff)
  then have up: "round_half_even y \<le> 2 ^ 53"
    using round_half_even_le_floor [of y] by linarith
  have "of_int (- (2 ^ 53)) \<le> y"
    using assms by simp
  then have "- (2 ^ 53) \<le> \<lfloor>y\<rfloor>"
    by (simp only: le_floor_iff)
  then have "- (2 ^ 53) \<le> round_half_even y"
    using round_half_even_ge_floor [of y] by linarith
  with up show ?thesis
    by linarith
qed

lemma ulp_exponent_ge: "- 1074 \<le> ulp_exponent x"
  by (simp add: ulp_exponent_def)

lemma nearest_double_idem: "nearest_double (nearest_double x) = nearest_double x"
proof (cases "x = 0")
  case True
  then show ?thesis by (simp add: nearest_double_def)
next
  case False
  let ?u = "ulp_exponent x"
  let ?m = "round_half_even (x / 2 powi ?u)"
  have n: "nearest_double x = of_int ?m * 2 powi ?u"
    using False by (simp add: nearest_double_def)
  have "\<bar>x / 2 powi ?u\<bar> = \<bar>x\<bar> / 2 powi ?u"
    by simp
  also have "\<dots> < 2 powi (53 + ?u) / 2 powi ?u"
    using abs_less_ulp [OF False] by (simp add: divide_strict_right_mono)
  also have "\<dots> = 2 ^ 53"
    by (simp add: power_int_add)
  finally have "\<bar>?m\<bar> \<le> 2 ^ 53"
    by (rule round_half_even_bound)
  then consider "\<bar>?m\<bar> < 2 ^ 53" | "?m = 2 ^ 53" | "?m = - (2 ^ 53)"
    by linarith
  then show ?thesis
  proof cases
    case 1
    then show ?thesis
      unfolding n using ulp_exponent_ge by (rule nearest_double_exact)
  next
    case 2
    have "of_int ?m * (2::real) powi ?u = of_int (2 ^ 52) * 2 powi (?u + 1)"
      unfolding 2 by (simp add: power_int_add)
    moreover have "nearest_double (of_int (2 ^ 52) * 2 powi (?u + 1)) = of_int (2 ^ 52) * 2 powi (?u + 1)"
      by (rule nearest_double_exact) (use ulp_exponent_ge [of x] in simp_all)
    ultimately show ?thesis
      unfolding n by simp
  next
    case 3
    have "of_int ?m * (2::real) powi ?u = of_int (- (2 ^ 52)) * 2 powi (?u + 1)"
      unfolding 3 by (simp add: power_int_add)
    moreover have "nearest_double (of_int (- (2 ^ 52)) * 2 powi (?u + 1))
                     = of_int (- (2 ^ 52)) * 2 powi (?u + 1)"
      by (rule nearest_double_exact) (use ulp_exponent_ge [of x] in simp_all)
    ultimately show ?thesis
      unfolding n by simp
  qed
qed

lemma to_number_range:
  "finite_double (to_number r) \<or> to_number r = PosInfinity \<or> to_number r = NegInfinity"
  using nearest_double_idem [of r]
  by (auto simp add: to_number_def Let_def finite_double_def is_double_def)

section \<open>Properties of the axis bounds\<close>

lemma foldl_min2_Num:
  "foldl min2 (Num a) (map Num rs) = Num (fold min rs a)"
  by (induction rs arbitrary: a) (simp_all add: min_def not_less)

lemma foldl_max2_Num:
  "foldl max2 (Num a) (map Num rs) = Num (fold max rs a)"
  by (induction rs arbitrary: a) (simp_all add: max_def not_less)

lemma Math_min_finite:
  assumes "rs \<noteq> []"
  shows "Math_min (map Num rs) = Num (Min (set rs))"
proof -
  from assms obtain r rs' where rs: "rs = r # rs'"
    by (cases rs) auto
  have "Math_min (map Num rs) = Num (fold min rs' r)"
    by (simp add: rs Math_min_def foldl_min2_Num)
  also have "fold min rs' r = Min (set rs)"
    unfolding rs by (rule Min.set_eq_fold [symmetric])
  finally show ?thesis .
qed

lemma Math_max_finite:
  assumes "rs \<noteq> []"
  shows "Math_max (map Num rs) = Num (Max (set rs))"
proof -
  from assms obtain r rs' where rs: "rs = r # rs'"
    by (cases rs) auto
  have "Math_max (map Num rs) = Num (fold max rs' r)"
    by (simp add: rs Math_max_def foldl_max2_Num)
  also have "fold max rs' r = Max (set rs)"
    unfolding rs by (rule Max.set_eq_fold [symmetric])
  finally show ?thesis .
qed

text \<open>
  C3, as the code has it. In the caching command, for every non-empty list of (finite)
  temperature samples the lower bound is the floor of the smallest sample when that is
  negative and 0 otherwise, and the upper bound is 40 unless the largest sample exceeds 40,
  when it is the ceiling of the largest sample plus 2 as a double, which is that sum itself
  as long as the sum is at most \<open>2 ^ 53\<close>; these are the \<open>suggestedMin\<close> and \<open>suggestedMax\<close>
  of the chart. Samples ranging from -2 to 41 give the bounds -2 and 43; samples ranging
  from 10 to 25 give 0 and 40. The chart of \<open>temperature.tsx\<close> passes no bounds: its y axis
  has \<open>beginAtZero: false\<close> only.
\<close>

theorem yAxis_bounds_nonempty:
  assumes "rs \<noteq> []" and "temperature_2m (hourly w) = map Num rs"
  shows "yAxisMin (map Num rs) =
           (if Min (set rs) < 0 then Num (of_int \<lfloor>Min (set rs)\<rfloor>) else Num 0)
       \<and> yAxisMax (map Num rs) =
           (if Max (set rs) > 40 then to_number (of_int (\<lceil>Max (set rs)\<rceil> + 2)) else Num 40)
       \<and> (\<lceil>Max (set rs)\<rceil> + 2 \<le> 2 ^ 53 \<longrightarrow>
            yAxisMax (map Num rs) =
              (if Max (set rs) > 40 then Num (of_int (\<lceil>Max (set rs)\<rceil> + 2)) else Num 40))
       \<and> suggestedMin (chartConfig_of h p wc w) = Some (yAxisMin (map Num rs))
       \<and> suggestedMax (chartConfig_of h p wc w) = Some (yAxisMax (map Num rs))
       \<and> (Min (set rs) = -2 \<and> Max (set rs) = 41 \<longrightarrow>
            yAxisMin (map Num rs) = Num (-2) \<and> yAxisMax (map Num rs) = Num 43)
       \<and> (Min (set rs) = 10 \<and> Max (set rs) = 25 \<longrightarrow>
            yAxisMin (map Num rs) = Num 0 \<and> yAxisMax (map Num rs) = Num 40)
       \<and> suggestedMin (temperature_chartConfig h p wc w) = None
       \<and> suggestedMax (temperature_chartConfig h p wc w) = None
       \<and> beginAtZero (temperature_chartConfig h p wc w) = Some False"
proof -
  let ?lo = "Min (set rs)" and ?hi = "Max (set rs)"
  have lo: "yAxisMin (map Num rs) = (if ?lo < 0 then Num (of_int \<lfloor>?lo\<rfloor>) else Num 0)"
    using assms(1) by (simp add: yAxisMin_def minTemp_def Math_min_finite)
  have hi: "yAxisMax (map Num rs) =
      (if ?hi > 40 then to_number (of_int (\<lceil>?hi\<rceil> + 2)) else Num 40)"
    using assms(1) by (simp add: yAxisMax_def maxTemp_def js_gt_def Math_max_finite)
  have exact: "to_number (of_int (\<lceil>?hi\<rceil> + 2)) = Num (of_int (\<lceil>?hi\<rceil> + 2))"
    if "\<lceil>?hi\<rceil> + 2 \<le> 2 ^ 53" "?hi > 40"
  proof -
    have "40 < \<lceil>?hi\<rceil>"
      using that(2) by (simp add: less_ceiling_iff)
    with that(1) have "\<bar>\<lceil>?hi\<rceil> + 2\<bar> \<le> 2 ^ 53"
      by linarith
    then show ?thesis
      by (rule to_number_int)
  qed
  have hi': "yAxisMax (map Num rs) = (if ?hi > 40 then Num (of_int (\<lceil>?hi\<rceil> + 2)) else Num 40)"
    if "\<lceil>?hi\<rceil> + 2 \<le> 2 ^ 53"
    using hi exact [OF that] by simp
  have cfg: "suggestedMin (chartConfig_of h p wc w) = Some (yAxisMin (map Num rs))"
    "suggestedMax (chartConfig_of h p wc w) = Some (yAxisMax (map Num rs))"
    using assms(2) by (simp_all add: chartConfig_of_def)
  have a: "yAxisMin (map Num rs) = Num (-2) \<and> yAxisMax (map Num rs) = Num 43"
    if "?lo = -2 \<and> ?hi = 41"
  proof -
    have "\<lceil>?hi\<rceil> + 2 \<le> 2 ^ 53"
      using that by simp
    from hi' [OF this] lo that show ?thesis
      by simp
  qed
  have b: "yAxisMin (map Num rs) = Num 0 \<and> yAxisMax (map Num rs) = Num 40"
    if "?lo = 10 \<and> ?hi = 25"
    using lo hi that by simp
  have t: "suggestedMin (temperature_chartConfig h p wc w) = None"
    "suggestedMax (temperature_chartConfig h p wc w) = None"
    "beginAtZero (temperature_chartConfig h p wc w) = Some False"
    by (simp_all add: temperature_chartConfig_def)
  from lo hi hi' cfg a b t show ?thesis
    by blast
qed

theorem yAxis_bounds_nonempty_witness:
  "[-2, 12.5, 41] \<noteq> ([] :: real list)
   \<and> temperature_2m (hourly example_forecast) = map Num [-2, 12.5, 41]
   \<and> Min (set [-2, 12.5, 41 :: real]) = -2 \<and> Max (set [-2, 12.5, 41 :: real]) = 41
   \<and> \<lceil>Max (set [-2, 12.5, 41 :: real])\<rceil> + 2 \<le> 2 ^ 53
   \<and> suggestedMin (chartConfig_of example_host example_props (example_clock 54000) example_forecast)
       = Some (Num (-2))
   \<and> suggestedMax (chartConfig_of example_host example_props (example_clock 54000) example_forecast)
       = Some (Num 43)
   \<and> temperature_2m (hourly (example_forecast\<lparr>hourly := \<lparr>time = [], temperature_2m = [Num 10, Num 17.25, Num 25]\<rparr>\<rparr>))
       = map Num [10, 17.25, 25]
   \<and> Min (set [10, 17.25, 25 :: real]) = 10 \<and> Max (set [10, 17.25, 25 :: real]) = 25
   \<and> yAxisMin (map Num [10, 17.25, 25]) = Num 0
   \<and> yAxisMax (map Num [10, 17.25, 25]) = Num 40"
proof -
  let ?w = "example_forecast\<lparr>hourly := \<lparr>time = [], temperature_2m = [Num 10, Num 17.25, Num 25]\<rparr>\<rparr>"
  have n1: "[-2, 12.5, 41] \<noteq> ([] :: real list)" and n2: "[10, 17.25, 25] \<noteq> ([] :: real list)"
    by simp_all
  have t1: "temperature_2m (hourly example_forecast) = map Num [-2, 12.5, 41]"
    by (simp add: example_forecast_def)
  have t2: "temperature_2m (hourly ?w) = map Num [10, 17.25, 25]"
    by simp
  have m1: "Min (set [-2, 12.5, 41 :: real]) = -2 \<and> Max (set [-2, 12.5, 41 :: real]) = 41"
    by simp
  have m2: "Min (set [10, 17.25, 25 :: real]) = 10 \<and> Max (set [10, 17.25, 25 :: real]) = 25"
    by simp
  have c1: "\<lceil>Max (set [-2, 12.5, 41 :: real])\<rceil> + 2 \<le> 2 ^ 53"
    by simp
  note a = yAxis_bounds_nonempty [OF n1 t1, of example_host example_props "example_clock 54000"]
  note b = yAxis_bounds_nonempty [OF n2 t2, of example_host example_props "example_clock 54000"]
  from a m1 have v1: "yAxisMin (map Num [-2, 12.5, 41]) = Num (-2)
      \<and> yAxisMax (map Num [-2, 12.5, 41]) = Num 43"
    by blast
  from b m2 have v2: "yAxisMin (map Num [10, 17.25, 25]) = Num 0
      \<and> yAxisMax (map Num [10, 17.25, 25]) = Num 40"
    by blast
  from a v1 have s1: "suggestedMin (chartConfig_of example_host example_props (example_clock 54000)
        example_forecast) = Some (Num (-2))
      \<and> suggestedMax (chartConfig_of example_host example_props (example_clock 54000)
        example_forecast) = Some (Num 43)"
    by simp
  from n1 t1 m1 c1 s1 t2 m2 v2 show ?thesis
    by blast
qed

text \<open>
  Where the bounds differ from the rule read over the reals. The chart of
  \<open>temperature.tsx\<close> gets no bounds for the samples -2, 12.5 and 41. In the caching
  command the single sample \<open>2 ^ 53 - 1\<close>, a double, gives the upper bound \<open>2 ^ 53\<close>, not
  \<open>2 ^ 53 + 1\<close>: the sum is rounded.
\<close>

theorem yAxis_bounds_counterexample:
  "temperature_2m (hourly example_forecast) = [Num (-2), Num 12.5, Num 41]
   \<and> suggestedMin (temperature_chartConfig example_host example_props (example_clock 54000)
         example_forecast) = None
   \<and> suggestedMax (temperature_chartConfig example_host example_props (example_clock 54000)
         example_forecast) = None
   \<and> is_double 9007199254740991
   \<and> yAxisMax [Num 9007199254740991] = Num 9007199254740992
   \<and> Num 9007199254740992 \<noteq> Num (of_int (\<lceil>9007199254740991 :: real\<rceil> + 2))"
proof -
  have d: "is_double 9007199254740991"
    using is_double_int [of 9007199254740991] by simp
  have "(9007199254740992::real) = 2 ^ 53"
    by simp
  then have "\<not> double_bound \<le> 9007199254740992" "\<not> (9007199254740992::real) \<le> - double_bound"
    using safe_less_double_bound double_bound_pos by linarith+
  then have "to_number 9007199254740993 = Num 9007199254740992"
    by (simp add: to_number_def nearest_double_above_safe)
  then have y: "yAxisMax [Num 9007199254740991] = Num 9007199254740992"
    by (simp add: yAxisMax_def maxTemp_def Math_max_def js_gt_def)
  from d y show ?thesis
    by (simp add: example_forecast_def temperature_chartConfig_def)
qed

text \<open>
  C10. On the empty list the minimum is \<open>+Infinity\<close> and the maximum is \<open>-Infinity\<close>, so
  neither widening condition holds and the bounds are the defaults 0 and 40.
\<close>

theorem yAxis_bounds_empty:
  "Math_min [] = PosInfinity \<and> Math_max [] = NegInfinity
   \<and> \<not> js_lt (minTemp []) (Num 0) \<and> \<not> js_gt (maxTemp []) (Num 40)
   \<and> yAxisMin [] = Num 0 \<and> yAxisMax [] = Num 40"
  by (simp add: yAxisMin_def yAxisMax_def minTemp_def maxTemp_def js_gt_def
      Math_min_def Math_max_def)

section \<open>Properties of the time window\<close>

lemma append_less_iff: "(xs @ ys < xs @ zs) = (ys < (zs :: string))"
  by (induction xs) simp_all

lemma append_le_iff: "(xs @ ys \<le> xs @ zs) = (ys \<le> (zs :: string))"
  by (induction xs) simp_all

lemma early_hour_cases: "(h::nat) < 5 \<Longrightarrow> h = 0 \<or> h = 1 \<or> h = 2 \<or> h = 3 \<or> h = 4"
  by arith

lemma late_hour_cases:
  "5 \<le> (h::nat) \<Longrightarrow> h < 24 \<Longrightarrow> h = 5 \<or> h = 6 \<or> h = 7 \<or> h = 8 \<or> h = 9 \<or> h = 10 \<or> h = 11
   \<or> h = 12 \<or> h = 13 \<or> h = 14 \<or> h = 15 \<or> h = 16 \<or> h = 17 \<or> h = 18 \<or> h = 19 \<or> h = 20
   \<or> h = 21 \<or> h = 22 \<or> h = 23"
  by arith

lemma mod10_cases:
  "(n::nat) mod 10 = 0 \<or> n mod 10 = 1 \<or> n mod 10 = 2 \<or> n mod 10 = 3 \<or> n mod 10 = 4
   \<or> n mod 10 = 5 \<or> n mod 10 = 6 \<or> n mod 10 = 7 \<or> n mod 10 = 8 \<or> n mod 10 = 9"
  by arith

lemma digit_char_ge_0: "CHR ''0'' \<le> digit_char n"
  using mod10_cases [of n] by (auto simp add: digit_char_def)

lemma two_digit_ge_00: "''00'' \<le> two_digit m"
  using digit_char_ge_0 [of "m div 10"] digit_char_ge_0 [of m]
  by (auto simp add: two_digit_def)

lemma timeString_early: "h < 5 \<Longrightarrow> two_digit h @ r < ''05:00''"
  by (auto dest!: early_hour_cases simp add: two_digit_def digit_char_def)

lemma timeString_late: "5 \<le> h \<Longrightarrow> h < 24 \<Longrightarrow> ''05:00'' \<le> two_digit h @ '':'' @ two_digit m"
  using two_digit_ge_00 [of m]
  by (auto dest!: late_hour_cases simp add: two_digit_def [of "numeral k" for k] digit_char_def)

lemma length_two_digit: "length (two_digit n) = 2"
  by (simp add: two_digit_def)

lemma length_show_nat_4:
  assumes "1000 \<le> n" "n < 10000"
  shows "length (show_nat n) = 4"
proof -
  have "\<not> n < 10" "\<not> n div 10 < 10" "\<not> n div 10 div 10 < 10" "n div 10 div 10 div 10 < 10"
    using assms by arith+
  then show ?thesis
    by (simp add: show_nat.simps [of n] show_nat.simps [of "n div 10"]
        show_nat.simps [of "n div 10 div 10"] show_nat.simps [of "n div 10 div 10 div 10"])
qed

lemma ends_with_refl: "\<exists>pre. zs = pre @ zs"
  by (rule exI [of _ "[]"]) simp

lemma ends_with_step:
  assumes "\<exists>pre. ys = pre @ zs"
  shows "\<exists>pre. xs @ ys = pre @ zs"
proof -
  from assms obtain pre where "ys = pre @ zs" ..
  then have "xs @ ys = (xs @ pre) @ zs"
    by simp
  then show ?thesis ..
qed

lemma apiUrl_ends_with_window:
  "\<exists>pre. apiUrl h p wc = pre @ ''&start_hour='' @ startTime wc @ ''&end_hour='' @ endTime wc"
  unfolding apiUrl_def by (intro ends_with_step ends_with_refl)

text \<open>
  C2. For every instant and every valid time zone, the window starts at the local calendar
  date of the instant at 05:00 and ends at the same local date with the local hour and
  minute (\<open>YYYY-MM-DDTHH:mm\<close>; the seconds do not enter). Before 05:00 local time the
  end is lexically below the start, on the same date: the window is not moved back a day.
  From 05:00 on the start is not above the end. The request URL carries the two bounds as
  computed.
\<close>

theorem computeWindow_local_day:
  assumes "timeZone h tz = Some clock"
  shows "computeWindow h tz now =
           Inr (show_nat (year (clock now)) @ ''-'' @ two_digit (month (clock now)) @ ''-''
                  @ two_digit (day (clock now)) @ ''T05:00'',
                show_nat (year (clock now)) @ ''-'' @ two_digit (month (clock now)) @ ''-''
                  @ two_digit (day (clock now)) @ ''T''
                  @ two_digit (hour (clock now)) @ '':'' @ two_digit (minute (clock now)))
       \<and> (\<forall>s. endTime ((clock now)\<lparr>second := s\<rparr>) = endTime (clock now))
       \<and> (1000 \<le> year (clock now) \<and> year (clock now) < 10000 \<longrightarrow>
            length (startTime (clock now)) = 16 \<and> length (endTime (clock now)) = 16)
       \<and> (hour (clock now) < 5 \<longrightarrow>
            endTime (clock now) < startTime (clock now)
            \<and> take (length (dateString (clock now))) (endTime (clock now)) = dateString (clock now)
            \<and> take (length (dateString (clock now))) (startTime (clock now)) = dateString (clock now))
       \<and> (5 \<le> hour (clock now) \<and> hour (clock now) < 24 \<longrightarrow>
            startTime (clock now) \<le> endTime (clock now))
       \<and> (\<exists>pre. apiUrl h p (clock now) =
              pre @ ''&start_hour='' @ startTime (clock now) @ ''&end_hour='' @ endTime (clock now))"
proof -
  let ?wc = "clock now"
  have w: "computeWindow h tz now = Inr (startTime ?wc, endTime ?wc)"
    using assms by (simp add: computeWindow_def localNow_def)
  have early: "endTime ?wc < startTime ?wc" if "hour ?wc < 5"
    using timeString_early [OF that, of "'':'' @ two_digit (minute ?wc)"]
    by (simp add: endTime_def startTime_def timeString_def append_less_iff)
  have late: "startTime ?wc \<le> endTime ?wc" if "5 \<le> hour ?wc" "hour ?wc < 24"
    using timeString_late [OF that, of "minute ?wc"]
    by (simp add: endTime_def startTime_def timeString_def append_le_iff)
  have len: "length (startTime ?wc) = 16 \<and> length (endTime ?wc) = 16"
    if "1000 \<le> year ?wc" "year ?wc < 10000"
    using length_show_nat_4 [OF that]
    by (simp add: endTime_def startTime_def timeString_def dateString_def length_two_digit)
  have plain: "computeWindow h tz now =
           Inr (show_nat (year ?wc) @ ''-'' @ two_digit (month ?wc) @ ''-''
                  @ two_digit (day ?wc) @ ''T05:00'',
                show_nat (year ?wc) @ ''-'' @ two_digit (month ?wc) @ ''-''
                  @ two_digit (day ?wc) @ ''T''
                  @ two_digit (hour ?wc) @ '':'' @ two_digit (minute ?wc))"
    using w by (simp add: endTime_def startTime_def timeString_def dateString_def)
  have sec: "\<forall>s. endTime (?wc\<lparr>second := s\<rparr>) = endTime ?wc"
    by (simp add: endTime_def timeString_def dateString_def)
  have pre: "take (length (dateString ?wc)) (endTime ?wc) = dateString ?wc"
    "take (length (dateString ?wc)) (startTime ?wc) = dateString ?wc"
    by (simp_all add: endTime_def startTime_def)
  from plain sec len early pre late apiUrl_ends_with_window [of h p ?wc]
  show ?thesis by blast
qed

theorem computeWindow_local_day_witness:
  "timeZone example_host ''Asia/Tokyo'' = Some example_clock
   \<and> hour (example_clock 11262) < 5
   \<and> computeWindow example_host ''Asia/Tokyo'' 11262 = Inr (''2025-10-30T05:00'', ''2025-10-30T03:07'')
   \<and> endTime (example_clock 11262) < startTime (example_clock 11262)
   \<and> length (startTime (example_clock 11262)) = 16
   \<and> 5 \<le> hour (example_clock 54000) \<and> hour (example_clock 54000) < 24
   \<and> computeWindow example_host ''Asia/Tokyo'' 54000 = Inr (''2025-10-30T05:00'', ''2025-10-30T15:00'')
   \<and> startTime (example_clock 54000) \<le> endTime (example_clock 54000)"
proof -
  have tz: "timeZone example_host ''Asia/Tokyo'' = Some example_clock"
    by (simp add: example_host_def)
  have y: "show_nat 2025 = ''2025''"
    by (simp add: show_nat.simps digit_char_def)
  have c1: "example_clock 11262 = \<lparr>year = 2025, month = 10, day = 30, hour = 3, minute = 7, second = 42\<rparr>"
    by (simp add: example_clock_def)
  have c2: "example_clock 54000 = \<lparr>year = 2025, month = 10, day = 30, hour = 15, minute = 0, second = 0\<rparr>"
    by (simp add: example_clock_def)
  show ?thesis
    using computeWindow_local_day [OF tz, of 11262] computeWindow_local_day [OF tz, of 54000]
    by (simp add: tz c1 c2 y two_digit_def digit_char_def)
qed

section \<open>Properties of \<open>fetchData\<close> and the cache slot\<close>

lemma fetchData_try_failed:
  assumes "fetch_failed h url"
  shows "\<exists>e. fetchData_try h url s st = Inl e"
  using assms
  by (auto simp add: fetch_failed_def fetchData_try_def isl_def
      split: fetch_outcome.splits sum.splits)

lemma fetchData_try_decoded:
  assumes "fetch h url = Resolved r" "ok r" "JSON_parse h (body r) = Inr d"
  shows "fetchData_try h url s st =
           Inr (s\<lparr>weather := d, isStale := False, error := None\<rparr>, StaleCache_put h d st)"
  using assms by (simp add: fetchData_try_def)

lemma StaleCache_get_empty:
  assumes "items st cache_key = None"
  shows "StaleCache_get h st = (Inr None, st\<lparr>calls := GetItem cache_key # calls st\<rparr>)"
  using assms by (simp add: StaleCache_get_def getItem_def)


lemma fetchData_failed_empty:
  assumes "fetch_failed h url" "items st cache_key = None"
  shows "\<exists>e. fetchData h url s st =
           (s\<lparr>isLoading := False, error := Some e\<rparr>,
            st\<lparr>calls := GetItem cache_key # calls st\<rparr>, None)"
proof -
  obtain e where "fetchData_try h url (s\<lparr>isLoading := True\<rparr>) st = Inl e"
    using fetchData_try_failed [OF assms(1)] by blast
  then have "fetchData h url s st =
           (s\<lparr>isLoading := False, error := Some e\<rparr>,
            st\<lparr>calls := GetItem cache_key # calls st\<rparr>, None)"
    by (simp add: fetchData_def fetchData_catch_def StaleCache_get_empty [OF assms(2)])
  then show ?thesis ..
qed


lemma fetchData_decoded:
  assumes "fetch h url = Resolved r" "ok r" "JSON_parse h (body r) = Inr d"
  shows "fetchData h url s st =
           (s\<lparr>weather := d, isStale := False, isLoading := False, error := None\<rparr>,
            StaleCache_put h d st, None)"
  by (simp add: fetchData_def fetchData_try_decoded [OF assms])

lemma those_as_string: "those (map (as_string \<circ> VStr) ts) = Some ts"
  by (induction ts) (simp_all add: as_string_def)

lemma those_as_number: "those (map (as_number \<circ> VNum) xs) = Some xs"
  by (induction xs) (simp_all add: as_number_def)

lemma of_to_jsvalue: "of_jsvalue (to_jsvalue d) = Some d"
proof (cases d)
  case JNull
  then show ?thesis by (simp add: of_jsvalue_def to_jsvalue_def)
next
  case (JForecast w)
  then show ?thesis
    by (simp add: of_jsvalue_def to_jsvalue_def forecast_of_def property_def
        as_number_def as_string_def as_numbers_def as_strings_def those_as_string those_as_number)
next
  case (JCurrent c)
  then show ?thesis
    by (simp add: of_jsvalue_def to_jsvalue_def forecast_of_def current_of_def
        property_def as_number_def as_string_def)
next
  case JOther
  then show ?thesis
    by (simp add: of_jsvalue_def to_jsvalue_def forecast_of_def current_of_def
        property_def)
qed

lemma parse_stringify_number:
  "finite_double n \<Longrightarrow> parse_text (stringify_value (VNum n)) = VNum n"
  by (cases n) (simp_all add: finite_double_def to_number_double)

lemma parse_stringify_numbers:
  "list_all finite_double xs \<Longrightarrow>
   map parse_text (map stringify_value (map VNum xs)) = map VNum xs"
  by (induction xs) (simp_all add: parse_stringify_number del: stringify_value.simps parse_text.simps)

lemma parse_stringify_strings:
  "map parse_text (map stringify_value (map VStr ts)) = map VStr ts"
  by (induction ts) simp_all

lemma parse_stringify_finite:
  assumes "json_finite d"
  shows "parse_text (stringify_value (to_jsvalue d)) = to_jsvalue d"
proof (cases d)
  case (JForecast w)
  with assms have "finite_double (latitude w)" "finite_double (longitude w)"
    "list_all finite_double (temperature_2m (hourly w))"
    by (simp_all add: json_finite_def)
  then show ?thesis
    using parse_stringify_number [of "latitude w"] parse_stringify_number [of "longitude w"]
      parse_stringify_numbers [of "temperature_2m (hourly w)"]
      parse_stringify_strings [of "time (hourly w)"]
    by (simp add: JForecast to_jsvalue_def)
next
  case (JCurrent c)
  with assms show ?thesis
    using parse_stringify_number [of "cur_latitude c"] parse_stringify_number [of "cur_longitude c"]
      parse_stringify_number [of "cur_temperature_2m (current c)"]
      parse_stringify_number [of "relative_humidity_2m (current c)"]
      parse_stringify_number [of "weather_code (current c)"]
      parse_stringify_number [of "wind_speed_10m (current c)"]
    by (simp add: to_jsvalue_def json_finite_def)
qed (simp_all add: to_jsvalue_def)

lemma codec_roundtrip_finite:
  "json_finite d \<Longrightarrow> of_jsvalue (parse_text (stringify_value (to_jsvalue d))) = Some d"
  by (simp add: parse_stringify_finite of_to_jsvalue)

lemma to_number_fixed: "(to_number x = Num x) = is_double x"
  using double_bound_pos
  by (auto simp add: to_number_def is_double_def Let_def split: if_splits)

lemma number_roundtrip_iff:
  "(parse_text (stringify_value (VNum n)) = VNum n) = finite_double n"
  by (cases n) (simp_all add: finite_double_def to_number_fixed)

lemma as_number_roundtrip_iff:
  "(as_number (parse_text (stringify_value (VNum n))) = Some n) = finite_double n"
  by (cases n) (simp_all add: finite_double_def to_number_fixed as_number_def)

lemma numbers_roundtrip_iff:
  "(map parse_text (map stringify_value (map VNum xs)) = map VNum xs) = list_all finite_double xs"
  by (induction xs)
    (simp_all add: number_roundtrip_iff del: stringify_value.simps parse_text.simps)

lemma as_numbers_roundtrip_iff:
  "(those (map as_number (map parse_text (map stringify_value (map VNum xs)))) = Some xs)
     = list_all finite_double xs"
proof (induction xs)
  case Nil
  show ?case by simp
next
  case (Cons x xs)
  show ?case
    using Cons.IH as_number_roundtrip_iff [of x]
    by (auto simp del: stringify_value.simps parse_text.simps split: option.splits)
qed

lemma value_roundtrip_iff:
  "(parse_text (stringify_value (to_jsvalue d)) = to_jsvalue d) = json_finite d"
proof (cases d)
  case (JForecast w)
  show ?thesis
    using number_roundtrip_iff [of "latitude w"] number_roundtrip_iff [of "longitude w"]
      numbers_roundtrip_iff [of "temperature_2m (hourly w)"]
      parse_stringify_strings [of "time (hourly w)"]
    by (simp add: JForecast to_jsvalue_def json_finite_def)
next
  case (JCurrent c)
  show ?thesis
    using number_roundtrip_iff [of "cur_latitude c"] number_roundtrip_iff [of "cur_longitude c"]
      number_roundtrip_iff [of "cur_temperature_2m (current c)"]
      number_roundtrip_iff [of "relative_humidity_2m (current c)"]
      number_roundtrip_iff [of "weather_code (current c)"]
      number_roundtrip_iff [of "wind_speed_10m (current c)"]
    by (simp add: JCurrent to_jsvalue_def json_finite_def)
qed (simp_all add: to_jsvalue_def json_finite_def)


lemma as_number_eq: "(as_number v = Some n) = (v = VNum n)"
  by (cases v) (simp_all add: as_number_def)

lemma forecast_roundtrip_finite:
  assumes "forecast_of (parse_text (stringify_value (to_jsvalue (JForecast w)))) = Some w"
  shows "json_finite (JForecast w)"
proof -
  let ?v = "parse_text (stringify_value (to_jsvalue (JForecast w)))"
  have lat: "property ''latitude'' ?v = Some (parse_text (stringify_value (VNum (latitude w))))"
    by (simp add: to_jsvalue_def property_def del: stringify_value.simps(3))
  have lon: "property ''longitude'' ?v = Some (parse_text (stringify_value (VNum (longitude w))))"
    by (simp add: to_jsvalue_def property_def del: stringify_value.simps(3))
  have tmp: "Option.bind (property ''hourly'' ?v) (property ''temperature_2m'')
      = Some (VArr (map parse_text (map stringify_value (map VNum (temperature_2m (hourly w))))))"
    by (simp add: to_jsvalue_def property_def del: stringify_value.simps(3))
  from assms have
    "Option.bind (property ''latitude'' ?v) as_number = Some (latitude w)"
    "Option.bind (property ''longitude'' ?v) as_number = Some (longitude w)"
    "Option.bind (Option.bind (property ''hourly'' ?v) (property ''temperature_2m'')) as_numbers
       = Some (temperature_2m (hourly w))"
    by (auto simp add: forecast_of_def split: Option.bind_splits)
  then have "finite_double (latitude w)" "finite_double (longitude w)"
    "list_all finite_double (temperature_2m (hourly w))"
    by (simp_all only: lat lon tmp Option.bind.simps as_number_roundtrip_iff as_numbers_def
        jsvalue.case as_numbers_roundtrip_iff)
  then show ?thesis
    by (simp add: json_finite_def)
qed


lemma current_roundtrip_finite:
  assumes "current_of (parse_text (stringify_value (to_jsvalue (JCurrent c)))) = Some c"
  shows "json_finite (JCurrent c)"
proof -
  let ?v = "parse_text (stringify_value (to_jsvalue (JCurrent c)))"
  let ?n = "\<lambda>n. Some (parse_text (stringify_value (VNum n)))"
  have lat: "property ''latitude'' ?v = ?n (cur_latitude c)"
    by (simp add: to_jsvalue_def property_def del: stringify_value.simps(3))
  have lon: "property ''longitude'' ?v = ?n (cur_longitude c)"
    by (simp add: to_jsvalue_def property_def del: stringify_value.simps(3))
  have tmp: "Option.bind (property ''current'' ?v) (property ''temperature_2m'')
               = ?n (cur_temperature_2m (current c))"
    by (simp add: to_jsvalue_def property_def del: stringify_value.simps(3))
  have hum: "Option.bind (property ''current'' ?v) (property ''relative_humidity_2m'')
               = ?n (relative_humidity_2m (current c))"
    by (simp add: to_jsvalue_def property_def del: stringify_value.simps(3))
  have cod: "Option.bind (property ''current'' ?v) (property ''weather_code'')
               = ?n (weather_code (current c))"
    by (simp add: to_jsvalue_def property_def del: stringify_value.simps(3))
  have win: "Option.bind (property ''current'' ?v) (property ''wind_speed_10m'')
               = ?n (wind_speed_10m (current c))"
    by (simp add: to_jsvalue_def property_def del: stringify_value.simps(3))
  from assms have
    "Option.bind (property ''latitude'' ?v) as_number = Some (cur_latitude c)"
    "Option.bind (property ''longitude'' ?v) as_number = Some (cur_longitude c)"
    "Option.bind (Option.bind (property ''current'' ?v) (property ''temperature_2m'')) as_number
       = Some (cur_temperature_2m (current c))"
    "Option.bind (Option.bind (property ''current'' ?v) (property ''relative_humidity_2m'')) as_number
       = Some (relative_humidity_2m (current c))"
    "Option.bind (Option.bind (property ''current'' ?v) (property ''weather_code'')) as_number
       = Some (weather_code (current c))"
    "Option.bind (Option.bind (property ''current'' ?v) (property ''wind_speed_10m'')) as_number
       = Some (wind_speed_10m (current c))"
    by (auto simp add: current_of_def split: Option.bind_splits)
  then have "finite_double (cur_latitude c)" "finite_double (cur_longitude c)"
    "finite_double (cur_temperature_2m (current c))"
    "finite_double (relative_humidity_2m (current c))"
    "finite_double (weather_code (current c))"
    "finite_double (wind_speed_10m (current c))"
    by (simp_all only: lat lon tmp hum cod win Option.bind.simps as_number_roundtrip_iff)
  then show ?thesis
    by (simp add: json_finite_def)
qed

lemma json_roundtrip_iff:
  "(of_jsvalue (parse_text (stringify_value (to_jsvalue d))) = Some d) = json_finite d"
proof
  assume r: "of_jsvalue (parse_text (stringify_value (to_jsvalue d))) = Some d"
  show "json_finite d"
  proof (cases d)
    case (JForecast w)
    have "\<exists>ms. parse_text (stringify_value (to_jsvalue (JForecast w))) = VObj ms"
      by (simp add: to_jsvalue_def)
    with r have "forecast_of (parse_text (stringify_value (to_jsvalue (JForecast w)))) = Some w"
      unfolding JForecast
      by (auto simp add: of_jsvalue_def split: option.splits if_splits)
    then show ?thesis
      unfolding JForecast by (rule forecast_roundtrip_finite)
  next
    case (JCurrent c)
    have "\<exists>ms. parse_text (stringify_value (to_jsvalue (JCurrent c))) = VObj ms"
      by (simp add: to_jsvalue_def)
    with r have "current_of (parse_text (stringify_value (to_jsvalue (JCurrent c)))) = Some c"
      unfolding JCurrent
      by (auto simp add: of_jsvalue_def split: option.splits if_splits)
    then show ?thesis
      unfolding JCurrent by (rule current_roundtrip_finite)
  qed (simp_all add: json_finite_def)
next
  assume "json_finite d"
  then show "of_jsvalue (parse_text (stringify_value (to_jsvalue d))) = Some d"
    by (rule codec_roundtrip_finite)
qed

lemma finite_not_infinite: "finite_double n \<Longrightarrow> \<not> infinite_number n"
  by (cases n) (simp_all add: finite_double_def infinite_number_def)

lemma parsed_number:
  assumes "parse_text t = VNum n"
  shows "finite_double n = (\<not> infinite_number n)"
proof -
  from assms obtain r where "n = to_number r"
    by (cases t) auto
  then show ?thesis
    using to_number_range [of r] finite_not_infinite [of n]
    by (auto simp add: infinite_number_def)
qed

lemma parsed_member:
  assumes "property k (parse_text t) = Some v"
  shows "\<exists>t'. v = parse_text t'"
proof (cases t)
  case (TObj ms)
  with assms have "map_of (rev (map (map_prod id parse_text) ms)) k = Some v"
    by (simp add: property_def)
  then have "(k, v) \<in> set (rev (map (map_prod id parse_text) ms))"
    by (rule map_of_SomeD)
  then show ?thesis
    by auto
qed (use assms in \<open>simp_all add: property_def\<close>)

lemma parsed_as_number:
  assumes "as_number (parse_text t) = Some n"
  shows "finite_double n = (\<not> infinite_number n)"
proof -
  from assms have "parse_text t = VNum n"
    by (simp only: as_number_eq)
  then show ?thesis
    by (rule parsed_number)
qed

lemma parsed_member_number:
  assumes "Option.bind (property k (parse_text t)) as_number = Some n"
  shows "finite_double n = (\<not> infinite_number n)"
proof -
  from assms obtain v where v: "property k (parse_text t) = Some v" "as_number v = Some n"
    by (auto split: Option.bind_splits)
  from v(1) obtain t' where "v = parse_text t'"
    using parsed_member by blast
  with v(2) show ?thesis
    using parsed_as_number by blast
qed

lemma those_parsed_numbers:
  assumes "those (map as_number (map parse_text ts)) = Some xs"
  shows "list_all finite_double xs = (\<not> list_ex infinite_number xs)"
  using assms
proof (induction ts arbitrary: xs)
  case Nil
  then show ?case by simp
next
  case (Cons t ts)
  from Cons.prems obtain n ns where
    n: "as_number (parse_text t) = Some n" and
    ns: "those (map as_number (map parse_text ts)) = Some ns" and
    xs: "xs = n # ns"
    by (auto split: option.splits)
  show ?case
    using parsed_as_number [OF n] Cons.IH [OF ns] finite_not_infinite
    by (auto simp add: xs list_all_iff list_ex_iff)
qed

lemma parsed_member_numbers:
  assumes "Option.bind (property k (parse_text t)) as_numbers = Some xs"
  shows "list_all finite_double xs = (\<not> list_ex infinite_number xs)"
proof -
  from assms obtain v where v: "property k (parse_text t) = Some v" "as_numbers v = Some xs"
    by (auto split: Option.bind_splits)
  from v(1) obtain t' where t': "v = parse_text t'"
    using parsed_member by blast
  from v(2) obtain ts where "those (map as_number (map parse_text ts)) = Some xs"
    unfolding t' by (cases t') (simp_all add: as_numbers_def)
  then show ?thesis
    by (rule those_parsed_numbers)
qed

lemma parsed_forecast:
  assumes "forecast_of (parse_text t) = Some w"
  shows "json_finite (JForecast w) = (\<not> json_infinite (JForecast w))"
proof -
  let ?v = "parse_text t"
  from assms obtain h where
    lat: "Option.bind (property ''latitude'' ?v) as_number = Some (latitude w)" and
    lon: "Option.bind (property ''longitude'' ?v) as_number = Some (longitude w)" and
    h: "property ''hourly'' ?v = Some h" and
    tmp: "Option.bind (property ''temperature_2m'' h) as_numbers = Some (temperature_2m (hourly w))"
    by (auto simp add: forecast_of_def split: Option.bind_splits)
  from h obtain t' where "h = parse_text t'"
    using parsed_member by blast
  with tmp have "list_all finite_double (temperature_2m (hourly w))
                   = (\<not> list_ex infinite_number (temperature_2m (hourly w)))"
    using parsed_member_numbers by blast
  with parsed_member_number [OF lat] parsed_member_number [OF lon] show ?thesis
    by (simp add: json_finite_def json_infinite_def)
qed

lemma parsed_current:
  assumes "current_of (parse_text t) = Some c"
  shows "json_finite (JCurrent c) = (\<not> json_infinite (JCurrent c))"
proof -
  let ?v = "parse_text t"
  from assms obtain h where
    lat: "Option.bind (property ''latitude'' ?v) as_number = Some (cur_latitude c)" and
    lon: "Option.bind (property ''longitude'' ?v) as_number = Some (cur_longitude c)" and
    h: "property ''current'' ?v = Some h" and
    tmp: "Option.bind (property ''temperature_2m'' h) as_number = Some (cur_temperature_2m (current c))" and
    hum: "Option.bind (property ''relative_humidity_2m'' h) as_number
            = Some (relative_humidity_2m (current c))" and
    cod: "Option.bind (property ''weather_code'' h) as_number = Some (weather_code (current c))" and
    win: "Option.bind (property ''wind_speed_10m'' h) as_number = Some (wind_speed_10m (current c))"
    by (auto simp add: current_of_def split: Option.bind_splits)
  from h obtain t' where t': "h = parse_text t'"
    using parsed_member by blast
  show ?thesis
    using parsed_member_number [OF lat] parsed_member_number [OF lon]
      parsed_member_number [OF tmp [unfolded t']] parsed_member_number [OF hum [unfolded t']]
      parsed_member_number [OF cod [unfolded t']] parsed_member_number [OF win [unfolded t']]
    by (simp add: json_finite_def json_infinite_def)
qed

lemma parsed_json:
  assumes "of_jsvalue (parse_text t) = Some d"
  shows "json_finite d = (\<not> json_infinite d)"
proof (cases d)
  case (JForecast w)
  with assms have "forecast_of (parse_text t) = Some w"
    by (auto simp add: of_jsvalue_def split: jsvalue.splits option.splits if_splits)
  then show ?thesis
    unfolding JForecast by (rule parsed_forecast)
next
  case (JCurrent c)
  with assms have "current_of (parse_text t) = Some c"
    by (auto simp add: of_jsvalue_def split: jsvalue.splits option.splits if_splits)
  then show ?thesis
    unfolding JCurrent by (rule parsed_current)
qed (simp_all add: json_finite_def json_infinite_def)

lemma platform_stringify:
  "JSON_stringify (platform_codec print read h) d = print (stringify_value (to_jsvalue d))"
  by (simp add: platform_codec_def)

lemma platform_parse:
  assumes "read s = Inr t" "of_jsvalue (parse_text t) = Some d"
  shows "JSON_parse (platform_codec print read h) s = Inr d"
  using assms by (simp add: platform_codec_def)

lemma platform_fetch: "fetch (platform_codec print read h) = fetch h"
  by (simp add: platform_codec_def)

lemma StaleCache_get_put:
  "fst (StaleCache_get h (StaleCache_put h d st)) =
     (if JSON_stringify h d = [] then Inr None
      else (case JSON_parse h (JSON_stringify h d) of Inl e \<Rightarrow> Inl e | Inr v \<Rightarrow> Inr (Some v)))"
  by (simp add: StaleCache_get_def StaleCache_put_def getItem_def setItem_def split: sum.splits)

lemma platform_get_put:
  assumes "read (print (stringify_value (to_jsvalue d))) = Inr (stringify_value (to_jsvalue d))"
    and "print (stringify_value (to_jsvalue d)) \<noteq> []"
    and "of_jsvalue (parse_text (stringify_value (to_jsvalue d))) = Some d'"
  shows "fst (StaleCache_get (platform_codec print read h)
                (StaleCache_put (platform_codec print read h) d st)) = Inr (Some d')"
proof -
  have "JSON_parse (platform_codec print read h) (print (stringify_value (to_jsvalue d))) = Inr d'"
    using assms(1,3) by (rule platform_parse)
  with assms(2) show ?thesis
    by (simp add: StaleCache_get_put platform_stringify)
qed

text \<open>
  C8, as the code has it. Reading the cache slot right after a forecast was written into it
  returns what \<open>JSON.parse\<close> makes of the text \<open>JSON.stringify\<close> made of the forecast; the
  slot keeps that text as written, whatever it held before, and reading does not change it.
  A forecast comes back from the two functions unchanged exactly when its numbers are all
  finite, and the numbers of a forecast that \<open>JSON.parse\<close> returned are all finite
  exactly when none of them is an infinity. So, on a host whose \<open>JSON.stringify\<close> and \<open>JSON.parse\<close> are these functions over a printer
  that writes the text of the forecast as a non-empty string and a reader that reads that
  string back as the text, the forecast read is the forecast written whenever its numbers
  are all finite, in particular after a successful \<open>fetchData\<close>. Whatever the numbers are,
  the forecast read is the one the two functions make of the forecast written, when there
  is one.
\<close>

theorem StaleCache_put_get:
  "fst (StaleCache_get h (StaleCache_put h d st)) =
     (if JSON_stringify h d = [] then Inr None
      else (case JSON_parse h (JSON_stringify h d) of Inl e \<Rightarrow> Inl e | Inr v \<Rightarrow> Inr (Some v)))
   \<and> items (StaleCache_put h d st) cache_key = Some (JSON_stringify h d)
   \<and> items (snd (StaleCache_get h (StaleCache_put h d st))) = items (StaleCache_put h d st)
   \<and> (parse_text (stringify_value (to_jsvalue d)) = to_jsvalue d) = json_finite d
   \<and> (of_jsvalue (parse_text (stringify_value (to_jsvalue d))) = Some d) = json_finite d
   \<and> (of_jsvalue (parse_text t) = Some d \<longrightarrow> json_finite d = (\<not> json_infinite d))
   \<and> (read (print (stringify_value (to_jsvalue d))) = Inr (stringify_value (to_jsvalue d))
        \<and> print (stringify_value (to_jsvalue d)) \<noteq> []
        \<and> of_jsvalue (parse_text (stringify_value (to_jsvalue d))) = Some d' \<longrightarrow>
        fst (StaleCache_get (platform_codec print read h)
               (StaleCache_put (platform_codec print read h) d st)) = Inr (Some d'))
   \<and> (read (print (stringify_value (to_jsvalue d))) = Inr (stringify_value (to_jsvalue d))
        \<and> print (stringify_value (to_jsvalue d)) \<noteq> [] \<and> json_finite d \<longrightarrow>
        fst (StaleCache_get (platform_codec print read h)
               (StaleCache_put (platform_codec print read h) d st)) = Inr (Some d)
        \<and> (\<forall>url r s. fetch (platform_codec print read h) url = Resolved r \<and> ok r
                \<and> JSON_parse (platform_codec print read h) (body r) = Inr d \<longrightarrow>
              weather (fst (fetchData (platform_codec print read h) url s st)) = d
              \<and> fst (StaleCache_get (platform_codec print read h)
                       (fst (snd (fetchData (platform_codec print read h) url s st))))
                  = Inr (Some d)))"
proof -
  have a: "items (StaleCache_put h d st) cache_key = Some (JSON_stringify h d)"
    by (simp add: StaleCache_put_def setItem_def)
  have b: "items (snd (StaleCache_get h (StaleCache_put h d st))) = items (StaleCache_put h d st)"
    by (simp add: StaleCache_get_def getItem_def split: option.splits sum.splits)
  have c: "(parse_text (stringify_value (to_jsvalue d)) = to_jsvalue d) = json_finite d"
    by (rule value_roundtrip_iff)
  have e: "(of_jsvalue (parse_text (stringify_value (to_jsvalue d))) = Some d) = json_finite d"
    by (rule json_roundtrip_iff)
  have f: "fst (StaleCache_get (platform_codec print read h)
                  (StaleCache_put (platform_codec print read h) d st)) = Inr (Some d')"
    if "read (print (stringify_value (to_jsvalue d))) = Inr (stringify_value (to_jsvalue d))"
      and "print (stringify_value (to_jsvalue d)) \<noteq> []"
      and "of_jsvalue (parse_text (stringify_value (to_jsvalue d))) = Some d'" for d'
    using that by (rule platform_get_put)
  have g: "fst (StaleCache_get (platform_codec print read h)
                  (StaleCache_put (platform_codec print read h) d st)) = Inr (Some d)"
    if "read (print (stringify_value (to_jsvalue d))) = Inr (stringify_value (to_jsvalue d))"
      and "print (stringify_value (to_jsvalue d)) \<noteq> []" and "json_finite d"
    using that(1,2) codec_roundtrip_finite [OF that(3)] by (rule platform_get_put)
  have i: "weather (fst (fetchData (platform_codec print read h) url s st)) = d
           \<and> fst (StaleCache_get (platform_codec print read h)
                    (fst (snd (fetchData (platform_codec print read h) url s st))))
               = Inr (Some d)"
    if "read (print (stringify_value (to_jsvalue d))) = Inr (stringify_value (to_jsvalue d))"
      and "print (stringify_value (to_jsvalue d)) \<noteq> []" and "json_finite d"
      and "fetch (platform_codec print read h) url = Resolved r" and "ok r"
      and "JSON_parse (platform_codec print read h) (body r) = Inr d" for url r s
    using g [OF that(1,2,3)] by (simp add: fetchData_decoded [OF that(4,5,6)])
  have p: "json_finite d = (\<not> json_infinite d)" if "of_jsvalue (parse_text t) = Some d"
    using that by (rule parsed_json)
  from StaleCache_get_put [of h d st] a b c e p f g i show ?thesis
    by blast
qed

text \<open>
  C4. When the forecast request fails (rejected, status not OK, or body not decodable) and
  nothing is cached, a report generation ends with the error panel: \<open>fetchData\<close> returns
  with the error recorded, \<open>isLoading\<close> false and no exception escaping, the next render
  throws nothing and shows the error panel, not the loading indicator. (The request is only
  made once the first render has computed the window, so the time zone is valid.)
\<close>

theorem fetch_failure_without_cache:
  assumes "timeZone h (timezoneId p) = Some clock"
      and "fetch_failed h (apiUrl h p (clock now))"
      and "items st cache_key = None"
  shows "WeatherDisplay h now now' p st =
           ((Inr FetchErrorPanel, []), st\<lparr>calls := GetItem cache_key # calls st\<rparr>)
       \<and> (\<exists>e. fetchData h (apiUrl h p (clock now)) initial_state st =
              (\<lparr>weather = JNull, isStale = False, isLoading = False, error = Some e\<rparr>,
               st\<lparr>calls := GetItem cache_key # calls st\<rparr>, None))"
proof -
  obtain e where e: "fetchData h (apiUrl h p (clock now)) initial_state st =
      (initial_state\<lparr>isLoading := False, error := Some e\<rparr>,
       st\<lparr>calls := GetItem cache_key # calls st\<rparr>, None)"
    using fetchData_failed_empty [OF assms(2,3)] by blast
  have "WeatherDisplay h now now' p st =
           ((Inr FetchErrorPanel, []), st\<lparr>calls := GetItem cache_key # calls st\<rparr>)"
    using assms(1) e
    by (simp add: WeatherDisplay_def WeatherDisplay_render_def localNow_def initial_state_def)
  moreover have "fetchData h (apiUrl h p (clock now)) initial_state st =
              (\<lparr>weather = JNull, isStale = False, isLoading = False, error = Some e\<rparr>,
               st\<lparr>calls := GetItem cache_key # calls st\<rparr>, None)"
    using e by (simp add: initial_state_def)
  ultimately show ?thesis by blast
qed



text \<open>
  C5, as the code has it. \<open>fetchData\<close> records an error exactly when the request was
  rejected, the status is not OK or the body does not decode. A decodable body of an OK
  response is accepted whatever its shape: in the hourly command it becomes the weather
  state and the content of the cache slot with no error recorded, and when it has no hourly
  member the component shows the loading indicator, not a report; in the current-weather
  command \<open>parseResponse\<close> returns it as the data, with no error.
\<close>

theorem decoded_body_is_accepted:
  "(error (fst (fetchData h url s st)) \<noteq> None) = fetch_failed h url
   \<and> (fetch h url = Resolved r \<and> ok r \<and> JSON_parse h (body r) = Inr d \<longrightarrow>
        fetchData h url s st =
          (s\<lparr>weather := d, isStale := False, isLoading := False, error := None\<rparr>,
           StaleCache_put h d st, None)
        \<and> ((\<forall>w. d \<noteq> JForecast w) \<and> timeZone h (timezoneId p) = Some clock \<longrightarrow>
             WeatherDisplay_render h now p (fst (fetchData h url s st)) = (Inr Loading, []))
        \<and> parseResponse h r = Inr d
        \<and> useFetch_settled (parseResponse h) (fetch h url)
            = \<lparr>data = d, uf_isLoading = False, uf_error = None\<rparr>)"
proof -
  have iff: "(error (fst (fetchData h url s st)) \<noteq> None) = fetch_failed h url"
    by (auto simp add: fetchData_def fetchData_try_def fetchData_catch_def fetch_failed_def isl_def
        Let_def split: fetch_outcome.splits sum.splits prod.splits option.splits)
  have rest: "fetchData h url s st =
          (s\<lparr>weather := d, isStale := False, isLoading := False, error := None\<rparr>,
           StaleCache_put h d st, None)
        \<and> ((\<forall>w. d \<noteq> JForecast w) \<and> timeZone h (timezoneId p) = Some clock \<longrightarrow>
             WeatherDisplay_render h now p (fst (fetchData h url s st)) = (Inr Loading, []))
        \<and> parseResponse h r = Inr d
        \<and> useFetch_settled (parseResponse h) (fetch h url)
            = \<lparr>data = d, uf_isLoading = False, uf_error = None\<rparr>"
    if a: "fetch h url = Resolved r" "ok r" "JSON_parse h (body r) = Inr d"
  proof -
    note fd = fetchData_decoded [OF a, of s st]
    have "WeatherDisplay_render h now p (fst (fetchData h url s st)) = (Inr Loading, [])"
      if "\<forall>w. d \<noteq> JForecast w" "timeZone h (timezoneId p) = Some clock"
      using that by (cases d) (simp_all add: fd WeatherDisplay_render_def localNow_def)
    moreover have "parseResponse h r = Inr d"
      using a by (simp add: parseResponse_def)
    moreover have "useFetch_settled (parseResponse h) (fetch h url)
            = \<lparr>data = d, uf_isLoading = False, uf_error = None\<rparr>"
      using a by (simp add: useFetch_settled_def parseResponse_def)
    ultimately show ?thesis
      using fd by blast
  qed
  from iff rest show ?thesis by blast
qed


section \<open>Properties of \<open>Command\<close>\<close>

text \<open>
  C6. Once the location request has settled, a transport or HTTP failure (an error from
  \<open>useFetch\<close>) and an answer whose success flag is false (with no error) meet the same
  condition and give the same location error panel, in both commands that resolve a location.
\<close>

theorem location_failures_same_panel:
  assumes "\<not> uf_isLoading loc1" and "uf_error loc1 = Some e"
      and "\<not> uf_isLoading loc2" and "uf_error loc2 = None" and "data loc2 = Some l"
      and "\<not> success l"
  shows "Command h now now' loc1 st = ((Inr LocationErrorPanel, []), st)
       \<and> Command h now now' loc2 st = ((Inr LocationErrorPanel, []), st)
       \<and> temperature_Command h now loc1 uf = (Inr LocationErrorPanel, [])
       \<and> temperature_Command h now loc2 uf = (Inr LocationErrorPanel, [])
       \<and> location_failed loc1 \<and> location_failed loc2"
  using assms by (simp add: Command_def temperature_Command_def location_failed_def)

text \<open>
  C7. When the location request has failed, \<open>Command\<close> returns the location error panel
  at once: no call is made on \<open>LocalStorage\<close> (the log of calls is unchanged), the stored
  items are unchanged, and the panel does not depend on what the cache slot holds.
\<close>

theorem location_failure_leaves_cache:
  assumes "\<not> uf_isLoading loc" and "location_failed loc"
  shows "Command h now now' loc st = ((Inr LocationErrorPanel, []), st)
       \<and> items (snd (Command h now now' loc st)) = items st
       \<and> calls (snd (Command h now now' loc st)) = calls st"
  using assms by (simp add: Command_def)


section \<open>The report text is a function of location, window, forecast and stale flag\<close>

lemma digit_char_inj:
  assumes "digit_char a = digit_char b"
  shows "a mod 10 = b mod 10"
proof -
  have "distinct ''0123456789''"
    by simp
  then have "(''0123456789'' ! (a mod 10) = ''0123456789'' ! (b mod 10)) = (a mod 10 = b mod 10)"
    by (rule nth_eq_iff_index_eq) simp_all
  with assms show ?thesis
    by (simp add: digit_char_def)
qed

lemma div_mod_10_eq:
  assumes "(a::nat) div 10 = b div 10" "a mod 10 = b mod 10"
  shows "a = b"
proof -
  have "a div 10 * 10 + a mod 10 = b div 10 * 10 + b mod 10"
    by (simp only: assms)
  then show ?thesis
    by (simp only: div_mult_mod_eq)
qed

lemma div_10_less:
  assumes "(a::nat) < 100"
  shows "a div 10 < 10"
  using assms less_mult_imp_div_less [of a 10 10] by simp

lemma two_digit_inj:
  assumes "two_digit a = two_digit b" "a < 100" "b < 100"
  shows "a = b"
proof -
  have d: "digit_char (a div 10) = digit_char (b div 10)" "digit_char a = digit_char b"
    using assms(1) by (simp_all add: two_digit_def)
  have m: "(a div 10) mod 10 = (b div 10) mod 10" "a mod 10 = b mod 10"
    using d(1) apply (rule digit_char_inj)
    using d(2) apply (rule digit_char_inj)
    done
  have "(a div 10) mod 10 = a div 10" "(b div 10) mod 10 = b div 10"
    using assms(2,3) by (simp_all only: div_10_less mod_less)
  with m have "a div 10 = b div 10"
    by (simp only:)
  then show ?thesis
    using m(2) by (rule div_mod_10_eq)
qed

lemma show_nat_not_Nil: "show_nat n \<noteq> []"
  by (subst show_nat.simps) simp

lemma show_nat_inj: "show_nat a = show_nat b \<Longrightarrow> a = b"
proof (induction a arbitrary: b rule: show_nat.induct)
  case (1 n)
  show ?case
  proof (cases "n < 10")
    case True
    have "b < 10"
    proof (rule ccontr)
      assume "\<not> b < 10"
      then have "show_nat b = show_nat (b div 10) @ [digit_char b]"
        by (subst show_nat.simps) simp
      moreover have "show_nat n = [digit_char n]"
        using True by (subst show_nat.simps) simp
      ultimately show False
        using "1.prems" show_nat_not_Nil [of "b div 10"] by simp
    qed
    moreover have "digit_char n = digit_char b"
      using "1.prems" True \<open>b < 10\<close> by (simp add: show_nat.simps [of n] show_nat.simps [of b])
    ultimately show ?thesis
      using True digit_char_inj [of n b] by simp
  next
    case False
    then have n: "show_nat n = show_nat (n div 10) @ [digit_char n]"
      by (subst show_nat.simps) simp
    have nb: "\<not> b < 10"
    proof
      assume "b < 10"
      then have "show_nat b = [digit_char b]"
        by (subst show_nat.simps) simp
      then show False
        using "1.prems" n show_nat_not_Nil [of "n div 10"] by simp
    qed
    then have b: "show_nat b = show_nat (b div 10) @ [digit_char b]"
      by (subst show_nat.simps) simp
    from "1.prems" n b have "show_nat (n div 10) = show_nat (b div 10)" "digit_char n = digit_char b"
      by simp_all
    then have "n div 10 = b div 10" "n mod 10 = b mod 10"
      using "1.IH" [OF False, of "b div 10"] digit_char_inj [of n b] by simp_all
    then show ?thesis
      by (rule div_mod_10_eq)
  qed
qed

lemma dateString_inj:
  assumes "dateString a = dateString b" "month a < 100" "day a < 100" "month b < 100" "day b < 100"
  shows "year a = year b \<and> month a = month b \<and> day a = day b"
proof -
  let ?ta = "''-'' @ two_digit (month a) @ ''-'' @ two_digit (day a)"
  let ?tb = "''-'' @ two_digit (month b) @ ''-'' @ two_digit (day b)"
  have "show_nat (year a) @ ?ta = show_nat (year b) @ ?tb"
    using assms(1) by (simp add: dateString_def)
  moreover have "length ?ta = length ?tb"
    by (simp add: length_two_digit)
  ultimately have "show_nat (year a) = show_nat (year b) \<and> ?ta = ?tb"
    using append_eq_append_conv [of "show_nat (year a)" "show_nat (year b)" ?ta ?tb] by blast
  then have "show_nat (year a) = show_nat (year b)"
    "two_digit (month a) = two_digit (month b)" "two_digit (day a) = two_digit (day b)"
    by (simp_all add: two_digit_def)
  then have "year a = year b" "two_digit (month a) = two_digit (month b)"
    "two_digit (day a) = two_digit (day b)"
    by (simp_all only: show_nat_inj [of "year a" "year b"])
  then show ?thesis
    using assms(2-) two_digit_inj [of "month a" "month b"] two_digit_inj [of "day a" "day b"]
    by simp
qed


lemma window_date_eq:
  assumes "timeZone h tz = Some clock"
      and "valid_wallclock (clock now1)" and "valid_wallclock (clock now2)"
      and "computeWindow h tz now1 = computeWindow h tz now2"
  shows "startTime (clock now1) = startTime (clock now2) \<and> endTime (clock now1) = endTime (clock now2)
       \<and> year (clock now1) = year (clock now2) \<and> month (clock now1) = month (clock now2)
       \<and> day (clock now1) = day (clock now2)"
proof -
  have se: "startTime (clock now1) = startTime (clock now2)" "endTime (clock now1) = endTime (clock now2)"
    using assms(1,4) by (simp_all add: computeWindow_def localNow_def)
  then have "dateString (clock now1) = dateString (clock now2)"
    by (simp add: startTime_def)
  moreover have "month (clock now1) < 100" "day (clock now1) < 100"
    "month (clock now2) < 100" "day (clock now2) < 100"
    using assms(2,3) by (simp_all add: valid_wallclock_def)
  ultimately have "year (clock now1) = year (clock now2) \<and> month (clock now1) = month (clock now2)
       \<and> day (clock now1) = day (clock now2)"
    by (rule dateString_inj)
  with se show ?thesis by simp
qed

text \<open>
  Determinism of the report. Two renders at instants with the same window, for the same
  location, state and host, give the same view (markdown and chart URL) in both variants of
  \<open>WeatherDisplay\<close>; without the stale flag the markdown is the report text alone. The
  render of the caching command writes nothing to the console; the render in
  \<open>temperature.tsx\<close> writes the chart title to the console whenever it reaches the report.
\<close>

theorem report_text_deterministic:
  assumes "timeZone h (timezoneId p) = Some clock"
      and "valid_wallclock (clock now1)" and "valid_wallclock (clock now2)"
      and "computeWindow h (timezoneId p) now1 = computeWindow h (timezoneId p) now2"
  shows "WeatherDisplay_render h now1 p s = WeatherDisplay_render h now2 p s
       \<and> snd (WeatherDisplay_render h now1 p s) = []
       \<and> (\<forall>w. weather s = JForecast w \<and> \<not> isStale s \<longrightarrow>
            fst (WeatherDisplay_render h now1 p s) =
              Inr (Report False
                     (report_text h p (clock now1) w (chartUrl h (chartConfig_of h p (clock now1) w)))
                     (chartUrl h (chartConfig_of h p (clock now1) w))))
       \<and> fst (temperature_WeatherDisplay h now1 p uf) = fst (temperature_WeatherDisplay h now2 p uf)
       \<and> snd (temperature_WeatherDisplay h now1 p uf) =
           (if uf_error uf = None
            then (case data uf of
                    JForecast w \<Rightarrow> [''Chart title: '' @ chart_title h p (clock now1)]
                  | _ \<Rightarrow> [])
            else [])"
proof -
  let ?a = "clock now1" and ?b = "clock now2"
  from window_date_eq [OF assms]
  have se: "startTime ?a = startTime ?b" "endTime ?a = endTime ?b"
    and ymd: "year ?a = year ?b" "month ?a = month ?b" "day ?a = day ?b"
    by simp_all
  have title: "chart_title h p ?a = chart_title h p ?b"
    by (simp add: chart_title_def formattedDate_def ymd)
  have cfg: "chartConfig_of h p ?a w = chartConfig_of h p ?b w" for w
    by (simp add: chartConfig_of_def title)
  have tcfg: "temperature_chartConfig h p ?a w = temperature_chartConfig h p ?b w" for w
    by (simp add: temperature_chartConfig_def title)
  have rt: "report_text h p ?a w url = report_text h p ?b w url" for w url
    by (simp add: report_text_def se)
  have r: "WeatherDisplay_render h now1 p s = WeatherDisplay_render h now2 p s"
    using assms(1)
    by (simp add: WeatherDisplay_render_def localNow_def markdown_def cfg rt split: json.splits)
  have c: "snd (WeatherDisplay_render h now1 p s) = []"
    using assms(1)
    by (simp add: WeatherDisplay_render_def localNow_def Let_def split: json.splits)
  have f: "fst (WeatherDisplay_render h now1 p s) =
              Inr (Report False
                     (report_text h p ?a w (chartUrl h (chartConfig_of h p ?a w)))
                     (chartUrl h (chartConfig_of h p ?a w)))"
    if "weather s = JForecast w" "\<not> isStale s" for w
    using assms(1) that
    by (simp add: WeatherDisplay_render_def localNow_def Let_def markdown_def staleMessage_def)
  have t: "fst (temperature_WeatherDisplay h now1 p uf) = fst (temperature_WeatherDisplay h now2 p uf)"
    using assms(1)
    by (simp add: temperature_WeatherDisplay_def localNow_def temperature_markdown_def tcfg rt
        Let_def split: json.splits)
  have tc: "snd (temperature_WeatherDisplay h now1 p uf) =
           (if uf_error uf = None
            then (case data uf of
                    JForecast w \<Rightarrow> [''Chart title: '' @ chart_title h p ?a]
                  | _ \<Rightarrow> [])
            else [])"
    using assms(1)
    by (simp add: temperature_WeatherDisplay_def localNow_def Let_def split: json.splits)
  from r c f t tc show ?thesis by blast
qed

section \<open>Concrete runs\<close>

text \<open>The theorems above at the concrete host, with every hypothesis discharged.\<close>

lemma example_tz: "timeZone example_host (timezoneId example_props) = Some example_clock"
  by (simp add: example_host_def example_props_def)

lemma example_tz_answering:
  "timeZone (example_host_answering r) (timezoneId example_props) = Some example_clock"
  by (simp add: example_host_answering_def example_host_def example_props_def)

lemma show_nat_2025: "show_nat 2025 = ''2025''"
  by (simp add: show_nat.simps digit_char_def)

lemma show_nat_10: "show_nat 10 = ''10''"
  by (simp add: show_nat.simps digit_char_def)

lemma show_nat_30: "show_nat 30 = ''30''"
  by (simp add: show_nat.simps digit_char_def)

lemma example_clock_54000:
  "example_clock 54000 = \<lparr>year = 2025, month = 10, day = 30, hour = 15, minute = 0, second = 0\<rparr>"
  by (simp add: example_clock_def)

lemma example_clock_54030:
  "example_clock 54030 = \<lparr>year = 2025, month = 10, day = 30, hour = 15, minute = 0, second = 30\<rparr>"
  by (simp add: example_clock_def)

text \<open>A failed request with an empty cache slot.\<close>

theorem fetch_failure_without_cache_witness:
  "timeZone example_host (timezoneId example_props) = Some example_clock
   \<and> fetch_failed example_host (apiUrl example_host example_props (example_clock 54000))
   \<and> items empty_storage cache_key = None
   \<and> WeatherDisplay example_host 54000 54060 example_props empty_storage =
       ((Inr FetchErrorPanel, []), \<lparr>items = Map.empty, calls = [GetItem cache_key]\<rparr>)"
proof -
  have f: "fetch_failed example_host (apiUrl example_host example_props (example_clock 54000))"
    by (simp add: fetch_failed_def example_host_def)
  have e: "items empty_storage cache_key = None"
    by (simp add: empty_storage_def)
  show ?thesis
    using fetch_failure_without_cache [OF example_tz f e, of 54060] example_tz f e
    by (simp add: empty_storage_def)
qed


lemma example_forecast_finite: "json_finite (JForecast example_forecast)"
proof -
  have "is_double (of_int 71 * 2 powi (- 1))" "is_double (of_int 559 * 2 powi (- 2))"
    "is_double (of_int 25 * 2 powi (- 1))"
    by (rule is_double_dyadic; simp)+
  moreover have "is_double (of_int (- 2))" "is_double (of_int 41)"
    by (rule is_double_int; simp)+
  ultimately show ?thesis
    by (simp add: json_finite_def example_forecast_def finite_double_def power_int_minus)
qed

lemma overflow_text_neq: "overflow_text \<noteq> example_text"
  by (simp add: overflow_text_def example_text_def overflow_forecast_def example_forecast_def
      to_jsvalue_def)

text \<open>A successful request, then the slot read back.\<close>

theorem StaleCache_put_get_witness:
  "json_finite (JForecast example_forecast)
   \<and> \<not> json_infinite (JForecast example_forecast)
   \<and> example_read (example_print (stringify_value (to_jsvalue (JForecast example_forecast))))
       = Inr (stringify_value (to_jsvalue (JForecast example_forecast)))
   \<and> example_print (stringify_value (to_jsvalue (JForecast example_forecast))) \<noteq> []
   \<and> of_jsvalue (parse_text (stringify_value (to_jsvalue (JForecast example_forecast))))
       = Some (JForecast example_forecast)
   \<and> fetch (platform_codec example_print example_read
               (example_host_answering (example_response ''<forecast>''))) ''u''
       = Resolved (example_response ''<forecast>'')
   \<and> ok (example_response ''<forecast>'')
   \<and> JSON_parse (platform_codec example_print example_read
                    (example_host_answering (example_response ''<forecast>'')))
         (body (example_response ''<forecast>'')) = Inr (JForecast example_forecast)
   \<and> fst (StaleCache_get (platform_codec example_print example_read
                             (example_host_answering (example_response ''<forecast>'')))
          (StaleCache_put (platform_codec example_print example_read
                             (example_host_answering (example_response ''<forecast>'')))
             (JForecast example_forecast) empty_storage)) = Inr (Some (JForecast example_forecast))
   \<and> weather (fst (fetchData (platform_codec example_print example_read
                                 (example_host_answering (example_response ''<forecast>'')))
                      ''u'' initial_state empty_storage)) = JForecast example_forecast
   \<and> fst (StaleCache_get (platform_codec example_print example_read
                             (example_host_answering (example_response ''<forecast>'')))
          (fst (snd (fetchData (platform_codec example_print example_read
                                  (example_host_answering (example_response ''<forecast>'')))
                       ''u'' initial_state empty_storage)))) = Inr (Some (JForecast example_forecast))"
proof -
  let ?h = "example_host_answering (example_response ''<forecast>'')"
  let ?H = "platform_codec example_print example_read ?h"
  let ?d = "JForecast example_forecast"
  have f: "json_finite ?d"
    by (rule example_forecast_finite)
  have a: "example_read (example_print (stringify_value (to_jsvalue ?d)))
             = Inr (stringify_value (to_jsvalue ?d))"
    by (simp add: example_read_def example_print_def example_text_def)
  have b: "example_print (stringify_value (to_jsvalue ?d)) \<noteq> []"
    by (simp add: example_print_def example_text_def)
  have v: "of_jsvalue (parse_text (stringify_value (to_jsvalue ?d))) = Some ?d"
    using f by (rule codec_roundtrip_finite)
  have c: "fetch ?H ''u'' = Resolved (example_response ''<forecast>'')"
    by (simp add: platform_fetch example_host_answering_def)
  have o: "ok (example_response ''<forecast>'')"
    by (simp add: example_response_def)
  have "example_read ''<forecast>'' = Inr (stringify_value (to_jsvalue ?d))"
    by (simp add: example_read_def example_text_def)
  then have "JSON_parse ?H ''<forecast>'' = Inr ?d"
    using v by (rule platform_parse)
  then have e: "JSON_parse ?H (body (example_response ''<forecast>'')) = Inr ?d"
    by (simp add: example_response_def)
  show ?thesis
    using StaleCache_put_get [of ?h ?d empty_storage "stringify_value (to_jsvalue ?d)"
        example_read example_print ?d] f a b v c o e
    by blast
qed

lemma parse_1e999: "parse_text (TNum (10 ^ 999)) = VNum PosInfinity"
proof -
  have "to_number (10 ^ 999) = PosInfinity"
    using double_bound_le_1e999 by (rule to_number_overflow)
  then show ?thesis
    by (simp only: parse_text.simps)
qed

lemma parse_overflow_body: "parse_text overflow_body = to_jsvalue (JForecast overflow_forecast)"
proof -
  define big :: jtext where "big = TNum (10 ^ 999)"
  have b: "parse_text big = VNum PosInfinity"
    unfolding big_def by (rule parse_1e999)
  have "is_double (of_int 559 * 2 powi (- 2))" "is_double (of_int 25 * 2 powi (- 1))"
    by (rule is_double_dyadic; simp)+
  then have "to_number 139.75 = Num 139.75" "to_number 12.5 = Num 12.5"
    by (simp_all add: to_number_double power_int_minus)
  moreover have "to_number (of_int (- 2)) = Num (of_int (- 2))" "to_number (of_int 41) = Num (of_int 41)"
    by (rule to_number_int; simp)+
  then have "to_number (- 2) = Num (- 2)" "to_number 41 = Num 41"
    by simp_all
  ultimately show ?thesis
    unfolding overflow_body_def big_def [symmetric]
    by (simp add: b overflow_forecast_def example_forecast_def to_jsvalue_def)
qed

text \<open>
  A forecast that does not come back. The response body has the token \<open>1e999\<close> for the
  latitude, which \<open>JSON.parse\<close> reads as \<open>Infinity\<close>. The request succeeds, the forecast
  becomes the weather state with no error, and the slot receives the text
  \<open>JSON.stringify\<close> makes of it, with \<open>null\<close> for the latitude. The value of that text has
  \<open>null\<close> where the forecast has \<open>Infinity\<close>: it is not the forecast written, and no
  forecast at all.
\<close>

theorem non_finite_number_not_read_back:
  "example_read ''<forecast, latitude 1e999>'' = Inr overflow_body
   \<and> property ''latitude'' (VObj [(''latitude'', parse_text (TNum (10 ^ 999)))]) = Some (VNum PosInfinity)
   \<and> parse_text overflow_body = to_jsvalue (JForecast overflow_forecast)
   \<and> latitude overflow_forecast = PosInfinity
   \<and> json_infinite (JForecast overflow_forecast)
   \<and> fetch (platform_codec example_print example_read
               (example_host_answering (example_response ''<forecast, latitude 1e999>''))) ''u''
       = Resolved (example_response ''<forecast, latitude 1e999>'')
   \<and> ok (example_response ''<forecast, latitude 1e999>'')
   \<and> JSON_parse (platform_codec example_print example_read
                    (example_host_answering (example_response ''<forecast, latitude 1e999>'')))
         (body (example_response ''<forecast, latitude 1e999>'')) = Inr (JForecast overflow_forecast)
   \<and> weather (fst (fetchData (platform_codec example_print example_read
                                 (example_host_answering (example_response ''<forecast, latitude 1e999>'')))
                      ''u'' initial_state empty_storage)) = JForecast overflow_forecast
   \<and> error (fst (fetchData (platform_codec example_print example_read
                               (example_host_answering (example_response ''<forecast, latitude 1e999>'')))
                    ''u'' initial_state empty_storage)) = None
   \<and> items (fst (snd (fetchData (platform_codec example_print example_read
                                    (example_host_answering (example_response ''<forecast, latitude 1e999>'')))
                         ''u'' initial_state empty_storage))) cache_key
       = Some ''<forecast, latitude null>''
   \<and> example_read ''<forecast, latitude null>''
       = Inr (stringify_value (to_jsvalue (JForecast overflow_forecast)))
   \<and> property ''latitude'' (to_jsvalue (JForecast overflow_forecast)) = Some (VNum PosInfinity)
   \<and> property ''latitude'' (parse_text (stringify_value (to_jsvalue (JForecast overflow_forecast))))
       = Some VNull
   \<and> parse_text (stringify_value (to_jsvalue (JForecast overflow_forecast)))
       \<noteq> to_jsvalue (JForecast overflow_forecast)
   \<and> of_jsvalue (parse_text (stringify_value (to_jsvalue (JForecast overflow_forecast)))) = None"
proof -
  let ?r = "example_response ''<forecast, latitude 1e999>''"
  let ?H = "platform_codec example_print example_read (example_host_answering ?r)"
  let ?d = "JForecast overflow_forecast"
  have r: "example_read ''<forecast, latitude 1e999>'' = Inr overflow_body"
    by (simp add: example_read_def)
  have n: "property ''latitude'' (VObj [(''latitude'', parse_text (TNum (10 ^ 999)))])
                  = Some (VNum PosInfinity)"
    by (simp only: parse_1e999) (simp add: property_def)
  have l: "latitude overflow_forecast = PosInfinity"
    by (simp add: overflow_forecast_def)
  have ji: "json_infinite (JForecast overflow_forecast)"
    by (simp add: json_infinite_def infinite_number_def overflow_forecast_def)
  have c: "fetch ?H ''u'' = Resolved ?r"
    by (simp add: platform_fetch example_host_answering_def)
  have o: "ok ?r"
    by (simp add: example_response_def)
  have "of_jsvalue (parse_text overflow_body) = Some ?d"
    by (simp only: parse_overflow_body of_to_jsvalue)
  with r have "JSON_parse ?H ''<forecast, latitude 1e999>'' = Inr ?d"
    by (rule platform_parse)
  then have e: "JSON_parse ?H (body ?r) = Inr ?d"
    by (simp add: example_response_def)
  have fd: "fetchData ?H ''u'' initial_state empty_storage =
          (initial_state\<lparr>weather := ?d, isStale := False, isLoading := False, error := None\<rparr>,
           StaleCache_put ?H ?d empty_storage, None)"
    using c o e by (rule fetchData_decoded)
  have w: "weather (fst (fetchData ?H ''u'' initial_state empty_storage)) = ?d"
    by (simp add: fd)
  have er: "error (fst (fetchData ?H ''u'' initial_state empty_storage)) = None"
    by (simp add: fd)
  have "example_print (stringify_value (to_jsvalue ?d)) = ''<forecast, latitude null>''"
    using overflow_text_neq by (simp add: example_print_def overflow_text_def)
  then have i: "items (fst (snd (fetchData ?H ''u'' initial_state empty_storage))) cache_key
                  = Some ''<forecast, latitude null>''"
    by (simp add: fd StaleCache_put_def setItem_def platform_stringify)
  have r2: "example_read ''<forecast, latitude null>'' = Inr (stringify_value (to_jsvalue ?d))"
    by (simp add: example_read_def overflow_text_def)
  have p1: "property ''latitude'' (to_jsvalue ?d) = Some (VNum PosInfinity)"
    by (simp add: to_jsvalue_def property_def overflow_forecast_def)
  have p2: "property ''latitude'' (parse_text (stringify_value (to_jsvalue ?d))) = Some VNull"
    by (simp add: to_jsvalue_def property_def overflow_forecast_def)
  from p1 p2 have ne: "parse_text (stringify_value (to_jsvalue ?d)) \<noteq> to_jsvalue ?d"
    by auto
  have u: "of_jsvalue (parse_text (stringify_value (to_jsvalue ?d))) = None"
    by (simp add: to_jsvalue_def overflow_forecast_def of_jsvalue_def forecast_of_def
        property_def as_number_def)
  from r n parse_overflow_body l ji c o e w er i r2 p1 p2 ne u show ?thesis
    by blast
qed

text \<open>A transport failure and a success flag of false.\<close>

theorem location_failures_same_panel_witness:
  "\<not> uf_isLoading \<lparr>data = None, uf_isLoading = False, uf_error = Some (Error ''Too Many Requests'')\<rparr>
   \<and> \<not> uf_isLoading \<lparr>data = Some example_location_failure, uf_isLoading = False, uf_error = None\<rparr>
   \<and> \<not> success example_location_failure
   \<and> Command example_host 54000 54060
         \<lparr>data = None, uf_isLoading = False, uf_error = Some (Error ''Too Many Requests'')\<rparr>
         example_storage
       = Command example_host 54000 54060
         \<lparr>data = Some example_location_failure, uf_isLoading = False, uf_error = None\<rparr>
         example_storage
   \<and> fst (Command example_host 54000 54060
         \<lparr>data = Some example_location_failure, uf_isLoading = False, uf_error = None\<rparr>
         example_storage) = (Inr LocationErrorPanel, [])"
  using location_failures_same_panel
    [of "\<lparr>data = None, uf_isLoading = False, uf_error = Some (Error ''Too Many Requests'')\<rparr>"
        "Error ''Too Many Requests''"
        "\<lparr>data = Some example_location_failure, uf_isLoading = False, uf_error = None\<rparr>"
        example_location_failure example_host 54000 54060 example_storage]
  by (simp add: example_location_failure_def)

text \<open>A failed location with a filled cache slot.\<close>

theorem location_failure_leaves_cache_witness:
  "\<not> uf_isLoading \<lparr>data = Some example_location_failure, uf_isLoading = False, uf_error = None\<rparr>
   \<and> location_failed \<lparr>data = Some example_location_failure, uf_isLoading = False, uf_error = None\<rparr>
   \<and> Command example_host 54000 54060
         \<lparr>data = Some example_location_failure, uf_isLoading = False, uf_error = None\<rparr>
         example_storage
       = ((Inr LocationErrorPanel, []), example_storage)
   \<and> calls (snd (Command example_host 54000 54060
         \<lparr>data = Some example_location_failure, uf_isLoading = False, uf_error = None\<rparr>
         example_storage)) = []"
  using location_failure_leaves_cache
    [of "\<lparr>data = Some example_location_failure, uf_isLoading = False, uf_error = None\<rparr>"
        example_host 54000 54060 example_storage]
  by (simp add: location_failed_def example_location_failure_def example_storage_def)


text \<open>Two renders within the same minute.\<close>

theorem report_text_deterministic_witness:
  "timeZone example_host (timezoneId example_props) = Some example_clock
   \<and> valid_wallclock (example_clock 54000) \<and> valid_wallclock (example_clock 54030)
   \<and> computeWindow example_host (timezoneId example_props) 54000
       = computeWindow example_host (timezoneId example_props) 54030
   \<and> weather \<lparr>weather = JForecast example_forecast, isStale = False, isLoading = False, error = None\<rparr>
       = JForecast example_forecast
   \<and> \<not> isStale \<lparr>weather = JForecast example_forecast, isStale = False, isLoading = False, error = None\<rparr>
   \<and> WeatherDisplay_render example_host 54000 example_props
         \<lparr>weather = JForecast example_forecast, isStale = False, isLoading = False, error = None\<rparr>
       = WeatherDisplay_render example_host 54030 example_props
         \<lparr>weather = JForecast example_forecast, isStale = False, isLoading = False, error = None\<rparr>
   \<and> fst (WeatherDisplay_render example_host 54000 example_props
         \<lparr>weather = JForecast example_forecast, isStale = False, isLoading = False, error = None\<rparr>)
       = Inr (Report False
                (report_text example_host example_props (example_clock 54000) example_forecast
                   (chartUrl example_host
                      (chartConfig_of example_host example_props (example_clock 54000) example_forecast)))
                (chartUrl example_host
                   (chartConfig_of example_host example_props (example_clock 54000) example_forecast)))
   \<and> snd (WeatherDisplay_render example_host 54000 example_props
         \<lparr>weather = JForecast example_forecast, isStale = False, isLoading = False, error = None\<rparr>)
       = []
   \<and> fst (temperature_WeatherDisplay example_host 54000 example_props
         \<lparr>data = JForecast example_forecast, uf_isLoading = False, uf_error = None\<rparr>)
       = fst (temperature_WeatherDisplay example_host 54030 example_props
         \<lparr>data = JForecast example_forecast, uf_isLoading = False, uf_error = None\<rparr>)"
proof -
  let ?s = "\<lparr>weather = JForecast example_forecast, isStale = False, isLoading = False, error = None\<rparr>"
  let ?uf = "\<lparr>data = JForecast example_forecast, uf_isLoading = False, uf_error = None\<rparr>"
  have v1: "valid_wallclock (example_clock 54000)"
    by (simp add: valid_wallclock_def example_clock_54000)
  have v2: "valid_wallclock (example_clock 54030)"
    by (simp add: valid_wallclock_def example_clock_54030)
  have w: "computeWindow example_host (timezoneId example_props) 54000
       = computeWindow example_host (timezoneId example_props) 54030"
    by (simp add: computeWindow_def localNow_def example_tz example_clock_54000 example_clock_54030
        startTime_def endTime_def dateString_def timeString_def)
  note t = report_text_deterministic [OF example_tz v1 v2 w, of ?s ?uf]
  have s1: "weather ?s = JForecast example_forecast"
    by simp
  have s2: "\<not> isStale ?s"
    by simp
  from t s1 s2 have f: "fst (WeatherDisplay_render example_host 54000 example_props ?s)
       = Inr (Report False
                (report_text example_host example_props (example_clock 54000) example_forecast
                   (chartUrl example_host
                      (chartConfig_of example_host example_props (example_clock 54000) example_forecast)))
                (chartUrl example_host
                   (chartConfig_of example_host example_props (example_clock 54000) example_forecast)))"
    by blast
  show ?thesis
    using t v1 v2 w example_tz s1 s2 f by blast
qed

text \<open>
  C9. Rendering should perform no output. The render in \<open>temperature.tsx\<close> does: it calls
  \<open>console.log\<close> with the chart title before it builds the table, so that for Tokyo and
  the example forecast the console receives one line. (The report text itself is
  deterministic in both variants, and the render of the caching command writes nothing, as
  shown above.)
\<close>

theorem temperature_render_writes_console:
  "snd (temperature_WeatherDisplay example_host 54000 example_props
          \<lparr>data = JForecast example_forecast, uf_isLoading = False, uf_error = None\<rparr>)
   = [''Chart title: Tokyo, Japan - 2025/10/30'']"
  by (simp add: temperature_WeatherDisplay_def localNow_def example_tz example_clock_54000
      chart_title_def formattedDate_def example_host_def example_props_def
      show_nat_2025 show_nat_10 show_nat_30 Let_def)

text \<open>
  An OK response whose body has the shape of the other command is not rejected. In the
  hourly command no error is recorded, the body becomes the weather state and replaces the
  cached forecast, and the component shows the loading indicator. In the current-weather
  command \<open>useFetch\<close> reports no error, and the render throws TypeError.
\<close>

theorem other_shape_is_not_rejected:
  "fetch (example_host_answering (example_response ''<current>''))
      (apiUrl (example_host_answering (example_response ''<current>'')) example_props
         (example_clock 54000))
     = Resolved (example_response ''<current>'')
   \<and> JSON_parse (example_host_answering (example_response ''<current>''))
        (body (example_response ''<current>'')) = Inr (JCurrent example_current)
   \<and> error (fst (fetchData (example_host_answering (example_response ''<current>''))
                (apiUrl (example_host_answering (example_response ''<current>'')) example_props
                   (example_clock 54000))
                initial_state example_storage)) = None
   \<and> weather (fst (fetchData (example_host_answering (example_response ''<current>''))
                (apiUrl (example_host_answering (example_response ''<current>'')) example_props
                   (example_clock 54000))
                initial_state example_storage)) = JCurrent example_current
   \<and> items (fst (snd (fetchData (example_host_answering (example_response ''<current>''))
                (apiUrl (example_host_answering (example_response ''<current>'')) example_props
                   (example_clock 54000))
                initial_state example_storage))) cache_key = Some ''<current>''
   \<and> WeatherDisplay (example_host_answering (example_response ''<current>'')) 54000 54060
         example_props example_storage
       = ((Inr Loading, []),
          \<lparr>items = [cache_key \<mapsto> ''<current>''], calls = [SetItem cache_key ''<current>'']\<rparr>)
   \<and> uf_error (useFetch_settled (parseResponse (example_host_answering (example_response ''<forecast>'')))
        (fetch (example_host_answering (example_response ''<forecast>''))
           (current_apiUrl (example_host_answering (example_response ''<forecast>''))))) = None
   \<and> current_Command (example_host_answering (example_response ''<forecast>'')) = (Inl TypeError, [])"
proof -
  let ?h = "example_host_answering (example_response ''<current>'')"
  let ?g = "example_host_answering (example_response ''<forecast>'')"
  let ?u = "apiUrl ?h example_props (example_clock 54000)"
  have f: "fetch ?h ?u = Resolved (example_response ''<current>'')"
    by (simp add: example_host_answering_def)
  have k: "ok (example_response ''<current>'')"
    by (simp add: example_response_def)
  have p: "JSON_parse ?h (body (example_response ''<current>'')) = Inr (JCurrent example_current)"
    by (simp add: example_host_answering_def example_host_def example_parse_def example_response_def)
  have s: "JSON_stringify ?h (JCurrent example_current) = ''<current>''"
    by (simp add: example_host_answering_def example_host_def example_stringify_def)
  have fd: "fetchData ?h ?u initial_state example_storage =
      (\<lparr>weather = JCurrent example_current, isStale = False, isLoading = False, error = None\<rparr>,
       \<lparr>items = [cache_key \<mapsto> ''<current>''], calls = [SetItem cache_key ''<current>'']\<rparr>, None)"
    by (simp add: fetchData_decoded [OF f k p] initial_state_def StaleCache_put_def setItem_def s
        example_storage_def)
  have wd: "WeatherDisplay ?h 54000 54060 example_props example_storage
       = ((Inr Loading, []),
          \<lparr>items = [cache_key \<mapsto> ''<current>''], calls = [SetItem cache_key ''<current>'']\<rparr>)"
    by (simp add: WeatherDisplay_def localNow_def example_tz_answering fd WeatherDisplay_render_def)
  have g1: "fetch ?g (current_apiUrl ?g) = Resolved (example_response ''<forecast>'')"
    by (simp add: example_host_answering_def)
  have g2: "parseResponse ?g (example_response ''<forecast>'') = Inr (JForecast example_forecast)"
    by (simp add: parseResponse_def example_host_answering_def example_host_def example_parse_def
        example_response_def)
  have uf: "useFetch_settled (parseResponse ?g) (fetch ?g (current_apiUrl ?g))
      = \<lparr>data = JForecast example_forecast, uf_isLoading = False, uf_error = None\<rparr>"
    by (simp add: useFetch_settled_def g1 g2)
  have cc: "current_Command ?g = (Inl TypeError, [])"
    by (simp add: current_Command_def uf current_render_def)
  show ?thesis
    using f p fd wd uf cc by simp
qed

text \<open>The same response through the general statement.\<close>

theorem decoded_body_is_accepted_witness:
  "fetch (example_host_answering (example_response ''<current>'')) ''u''
     = Resolved (example_response ''<current>'')
   \<and> ok (example_response ''<current>'')
   \<and> JSON_parse (example_host_answering (example_response ''<current>''))
        (body (example_response ''<current>'')) = Inr (JCurrent example_current)
   \<and> (\<forall>w. JCurrent example_current \<noteq> JForecast w)
   \<and> timeZone (example_host_answering (example_response ''<current>'')) (timezoneId example_props)
       = Some example_clock
   \<and> \<not> fetch_failed (example_host_answering (example_response ''<current>'')) ''u''
   \<and> error (fst (fetchData (example_host_answering (example_response ''<current>'')) ''u''
                initial_state empty_storage)) = None
   \<and> fetchData (example_host_answering (example_response ''<current>'')) ''u'' initial_state
        empty_storage
       = (initial_state\<lparr>weather := JCurrent example_current, isStale := False, isLoading := False,
            error := None\<rparr>,
          StaleCache_put (example_host_answering (example_response ''<current>''))
            (JCurrent example_current) empty_storage, None)
   \<and> WeatherDisplay_render (example_host_answering (example_response ''<current>'')) 54060
        example_props
        (fst (fetchData (example_host_answering (example_response ''<current>'')) ''u''
                initial_state empty_storage))
       = (Inr Loading, [])
   \<and> parseResponse (example_host_answering (example_response ''<current>''))
        (example_response ''<current>'') = Inr (JCurrent example_current)"
proof -
  let ?h = "example_host_answering (example_response ''<current>'')"
  have f: "fetch ?h ''u'' = Resolved (example_response ''<current>'')"
    by (simp add: example_host_answering_def)
  have k: "ok (example_response ''<current>'')"
    by (simp add: example_response_def)
  have p: "JSON_parse ?h (body (example_response ''<current>'')) = Inr (JCurrent example_current)"
    by (simp add: example_host_answering_def example_host_def example_parse_def example_response_def)
  have n: "\<forall>w. JCurrent example_current \<noteq> JForecast w"
    by simp
  have nf: "\<not> fetch_failed ?h ''u''"
    by (simp add: fetch_failed_def f k p)
  note t = decoded_body_is_accepted [of ?h "''u''" initial_state empty_storage
      "example_response ''<current>''" "JCurrent example_current" example_props example_clock 54060]
  have e: "error (fst (fetchData ?h ''u'' initial_state empty_storage)) = None"
    using t nf by blast
  show ?thesis
    using t f k p n nf e example_tz_answering [of "example_response ''<current>''"]
    by blast
qed

end
